theory Spec2Isabelle
  imports Complex_Main "HOL-Library.Sublist"
begin

section \<open>Python values used by the sales assistant\<close>

text \<open>
  Exceptions are values. The three exception classes the modelled code raises are kept
  apart, each with the text of its message: \<open>ValueError\<close> (the models' validation and
  state checks), \<open>LLMServiceError\<close> (src/services/llm/service.py) and
  \<open>ConversationServiceError\<close> (src/services/conversation/service.py).
\<close>

datatype error =
    ValueError string
  | LLMServiceError string
  | ConversationServiceError string

text \<open>\<open>str(e)\<close> of an exception built from one message argument is that message.\<close>

fun str_of_error :: "error \<Rightarrow> string" where
  "str_of_error (ValueError m) = m"
| "str_of_error (LLMServiceError m) = m"
| "str_of_error (ConversationServiceError m) = m"

text \<open>
  A string is a list of code points below 256. \<open>str.lower()\<close> on such a string moves the
  upper-case letters, \<open>A\<close>..\<open>Z\<close> (65..90) and the accented capitals 192..214 and
  216..222, up by 32; every other code point stays.
\<close>

definition lower_char :: "char \<Rightarrow> char" where
  "lower_char c =
     (let n = (of_char c :: nat)
      in if (65 \<le> n \<and> n \<le> 90) \<or> (192 \<le> n \<and> n \<le> 214) \<or> (216 \<le> n \<and> n \<le> 222)
         then char_of (n + 32) else c)"

definition lower :: "string \<Rightarrow> string" where
  "lower s = map lower_char s"

text \<open>\<open>k in s\<close> on strings: \<open>k\<close> occurs in \<open>s\<close> as a contiguous piece.\<close>

fun str_in :: "string \<Rightarrow> string \<Rightarrow> bool" where
  "str_in k [] = (k = [])"
| "str_in k (c # cs) = (prefix k (c # cs) \<or> str_in k cs)"

text \<open>
  The white space that \<open>str.strip()\<close> removes, among the code points below 256: tab, line
  feed, vertical tab, form feed, carriage return (9..13), the separators 28..31, the
  space, next line (133) and the no-break space (160). \<open>not s or not s.strip()\<close> holds
  exactly when every character of \<open>s\<close> is such a character (the empty string included).
\<close>

definition is_space :: "char \<Rightarrow> bool" where
  "is_space c =
     (let n = (of_char c :: nat)
      in (9 \<le> n \<and> n \<le> 13) \<or> (28 \<le> n \<and> n \<le> 32) \<or> n = 133 \<or> n = 160)"

definition is_blank :: "string \<Rightarrow> bool" where
  "is_blank s = list_all is_space s"

text \<open>
  The slices \<open>xs[:k]\<close> and \<open>xs[-n:]\<close> for an integer bound: a negative bound counts from
  the end of the list, and a bound beyond either end is clipped.
\<close>

definition py_slice_to :: "'a list \<Rightarrow> int \<Rightarrow> 'a list" where
  "py_slice_to xs k =
     (if 0 \<le> k then take (nat k) xs else take (length xs - nat (- k)) xs)"

definition py_slice_from :: "'a list \<Rightarrow> int \<Rightarrow> 'a list" where
  "py_slice_from xs k =
     (if 0 \<le> k then drop (nat k) xs else drop (length xs - nat (- k)) xs)"

text \<open>
  \<open>list.sort(key=f, reverse=True)\<close>: descending by key, and stable, elements with equal
  keys keeping their order (reverse sorting keeps stability in Python). The library's
  insertion sort is stable and ascending, so it runs on the negated key.
\<close>

definition sort_reverse :: "('a \<Rightarrow> int) \<Rightarrow> 'a list \<Rightarrow> 'a list" where
  "sort_reverse f xs = sort_key (\<lambda>x. - f x) xs"

section \<open>Product model (src/models/product)\<close>

datatype StockStatus = IN_STOCK | OUT_OF_STOCK | LOW_STOCK | DISCONTINUED | PRE_ORDER

datatype PriceTier = BUDGET | MID_RANGE | PREMIUM | LUXURY

text \<open>
  \<open>Decimal\<close> amounts are rationals. The field \<open>status\<close> of the stock record is named
  \<open>stock_status\<close> here, the name the product gives it, since the conversation has a
  \<open>status\<close> of its own.
\<close>

record ProductPriceSchema =
  price :: rat
  original_price :: rat
  currency :: string
  discount_percentage :: int

record ProductStockSchema =
  stock_status :: StockStatus
  quantity :: int
  reorder_level :: int

text \<open>
  The dataclass constructor with its \<open>__post_init__\<close>: the two range checks raise, then
  the status is rewritten from the quantity.
\<close>

definition new_ProductStockSchema :: "StockStatus \<Rightarrow> int \<Rightarrow> int \<Rightarrow> error + ProductStockSchema" where
  "new_ProductStockSchema st q r =
     (if q < 0 then Inl (ValueError ''Stock quantity cannot be negative'')
      else if r < 0 then Inl (ValueError ''Reorder level cannot be negative'')
      else if q = 0 \<and> st \<noteq> OUT_OF_STOCK then
        Inr \<lparr>stock_status = OUT_OF_STOCK, quantity = q, reorder_level = r\<rparr>
      else if 0 < q \<and> q \<le> r \<and> st = IN_STOCK then
        Inr \<lparr>stock_status = LOW_STOCK, quantity = q, reorder_level = r\<rparr>
      else Inr \<lparr>stock_status = st, quantity = q, reorder_level = r\<rparr>)"

definition stock_is_available :: "ProductStockSchema \<Rightarrow> bool" where
  "stock_is_available s = (stock_status s \<in> set [IN_STOCK, LOW_STOCK])"

record ProductMetadataSchema =
  rating :: rat
  review_count :: int
  is_featured :: bool
  is_new_arrival :: bool
  tags :: "string list"

text \<open>
  The product schema, with the fields the recommendation engine reads. A \<open>Product\<close> wraps
  one schema and forwards every property to it, so a product is its schema here; the
  schema's \<open>metadata\<close> field is named \<open>product_metadata\<close>. Ratings are floats between 0
  and 5 and are only compared with 4.5 and 4.0, so they are rationals here.
\<close>

record Product =
  product_id :: string
  sku :: string
  name :: string
  category :: string
  subcategory :: string
  brand :: string
  description :: string
  price_info :: ProductPriceSchema
  stock_info :: ProductStockSchema
  features :: "string list"
  price_tier :: PriceTier
  product_metadata :: ProductMetadataSchema

definition product_price :: "Product \<Rightarrow> rat" where
  "product_price p = price (price_info p)"

definition is_on_sale :: "Product \<Rightarrow> bool" where
  "is_on_sale p = (discount_percentage (price_info p) > 0)"

definition is_available :: "Product \<Rightarrow> bool" where
  "is_available p = stock_is_available (stock_info p)"

definition product_rating :: "Product \<Rightarrow> rat" where
  "product_rating p = rating (product_metadata p)"

definition product_is_featured :: "Product \<Rightarrow> bool" where
  "product_is_featured p = is_featured (product_metadata p)"

definition product_tags :: "Product \<Rightarrow> string list" where
  "product_tags p = tags (product_metadata p)"

definition matches_category :: "Product \<Rightarrow> string \<Rightarrow> bool" where
  "matches_category p c = (lower (category p) = lower c)"

definition matches_subcategory :: "Product \<Rightarrow> string \<Rightarrow> bool" where
  "matches_subcategory p c = (lower (subcategory p) = lower c)"

definition matches_brand :: "Product \<Rightarrow> string \<Rightarrow> bool" where
  "matches_brand p b = (lower (brand p) = lower b)"

definition matches_price_tier :: "Product \<Rightarrow> PriceTier \<Rightarrow> bool" where
  "matches_price_tier p t = (price_tier p = t)"

definition has_feature_keyword :: "Product \<Rightarrow> string \<Rightarrow> bool" where
  "has_feature_keyword p keyword =
     (let keyword_lower = lower keyword in
        list_ex (\<lambda>feature. str_in keyword_lower (lower feature)) (features p)
        \<or> str_in keyword_lower (lower (name p))
        \<or> str_in keyword_lower (lower (description p)))"

definition is_within_budget :: "Product \<Rightarrow> rat \<Rightarrow> rat \<Rightarrow> bool" where
  "is_within_budget p min_price max_price =
     (min_price \<le> product_price p \<and> product_price p \<le> max_price)"

section \<open>Persona model (src/models/user)\<close>

text \<open>
  The budget dictionary of a validated persona always holds \<open>min\<close> and \<open>max\<close>;
  \<open>sweet_spot\<close> may be missing, and is then read as \<open>max\<close>.
\<close>

record BudgetRange =
  range_min :: rat
  range_max :: rat
  range_sweet_spot :: "rat option"

record User =
  persona_id :: string
  user_name :: string
  categories_of_interest :: "string list"
  key_features_valued :: "string list"
  budget_range :: BudgetRange
  deal_breakers :: "string list"

definition budget_min :: "User \<Rightarrow> rat" where
  "budget_min u = range_min (budget_range u)"

definition budget_max :: "User \<Rightarrow> rat" where
  "budget_max u = range_max (budget_range u)"

definition budget_sweet_spot :: "User \<Rightarrow> rat" where
  "budget_sweet_spot u =
     (case range_sweet_spot (budget_range u) of
        Some s \<Rightarrow> s
      | None \<Rightarrow> range_max (budget_range u))"

definition is_interested_in_category :: "User \<Rightarrow> string \<Rightarrow> bool" where
  "is_interested_in_category u c = (lower c \<in> set (map lower (categories_of_interest u)))"

section \<open>Catalog store (src/services/product/repository.py)\<close>

text \<open>
  The repository is its cache: the list of products loaded from the file, in file order.
\<close>

definition get_products_by_category :: "Product list \<Rightarrow> string \<Rightarrow> Product list" where
  "get_products_by_category all_products c = filter (\<lambda>p. matches_category p c) all_products"

definition get_available_products :: "Product list \<Rightarrow> Product list" where
  "get_available_products all_products = filter is_available all_products"

section \<open>Recommendation engine (src/services/product/service.py)\<close>

text \<open>
  The scores are floats built by adding 10.0, 5.0, 15.0, 3.0, 2.0, 4.0 and
  \<open>2.0 * len(...)\<close> to 0.0: whole numbers that floats represent exactly, so they are
  integers here. The loop over the valued features adds 3 for each one that matches.
\<close>

definition calculate_product_score_for_user :: "Product \<Rightarrow> User \<Rightarrow> int" where
  "calculate_product_score_for_user p u =
     (if is_within_budget p (budget_min u) (budget_max u) then
        10
        + (if product_price p \<le> budget_sweet_spot u then 5 else 0)
        + (if is_interested_in_category u (category p) then 15 else 0)
        + 3 * int (length (filter (has_feature_keyword p) (key_features_valued u)))
        + (if product_is_featured p then 2 else 0)
        + (if is_on_sale p then 3 else 0)
        + (if product_rating p \<ge> 45 / 10 then 4
           else if product_rating p \<ge> 4 then 2 else 0)
      else 0)"

definition get_recommendations_for_user :: "Product list \<Rightarrow> User \<Rightarrow> int \<Rightarrow> Product list" where
  "get_recommendations_for_user all_products u limit =
     (let products = get_available_products all_products;
          scored_products = map (\<lambda>p. (p, calculate_product_score_for_user p u)) products;
          scored_products = sort_reverse snd scored_products
      in map fst (py_slice_to scored_products limit))"

text \<open>
  Rounding to \<open>prec\<close> significant digits in base \<open>b\<close>, ties to even, with the least
  exponent \<open>emin\<close> below which the digits are not scaled any further (the subnormal
  range). \<open>num_digits b n\<close> counts the base-\<open>b\<close> digits of a positive integer, and
  \<open>exponent_of b x\<close> is the \<open>e\<close> with \<open>b ^ e \<le> x < b ^ (e + 1)\<close> for a positive \<open>x\<close>.
\<close>

definition round_half_even :: "rat \<Rightarrow> int" where
  "round_half_even x =
     (let f = \<lfloor>x\<rfloor>; r = x - of_int f
      in if r < 1 / 2 then f else if 1 / 2 < r then f + 1 else if even f then f else f + 1)"

definition pow_int :: "int \<Rightarrow> int \<Rightarrow> rat" where
  "pow_int b k = (if 0 \<le> k then of_int b ^ nat k else 1 / of_int b ^ nat (- k))"

function num_digits :: "int \<Rightarrow> int \<Rightarrow> int" where
  "num_digits b n = (if 1 < b \<and> 0 < n then num_digits b (n div b) + 1 else 0)"
  by pat_completeness auto
termination
  by (relation "measure (\<lambda>(b, n). nat n)") (auto intro: int_div_less_self)

definition exponent_of :: "int \<Rightarrow> rat \<Rightarrow> int" where
  "exponent_of b x =
     (let (p, q) = quotient_of x;
          e = num_digits b p - num_digits b q
      in if pow_int b e \<le> x then e else e - 1)"

definition round_to_precision :: "int \<Rightarrow> int \<Rightarrow> int \<Rightarrow> rat \<Rightarrow> rat" where
  "round_to_precision b prec emin x =
     (if x = 0 then 0
      else (let e = max (exponent_of b \<bar>x\<bar>) emin;
                q = e - prec + 1;
                m = round_half_even (\<bar>x\<bar> / pow_int b q)
            in sgn x * of_int m * pow_int b q))"

text \<open>
  \<open>a - b\<close> on \<open>Decimal\<close> amounts is the exact difference rounded by the default context:
  28 significant digits, ties to even, least exponent -999999 (amounts read from JSON
  numbers stay far below the largest exponent, 999999). \<open>float(d)\<close> is the nearest
  double: 53 significant bits, ties to even, least exponent -1022; a result of
  \<open>2 ^ 1024\<close> or more stands for \<open>inf\<close>, which like it is not below any band limit.
\<close>

definition decimal_sub :: "rat \<Rightarrow> rat \<Rightarrow> rat" where
  "decimal_sub a b = round_to_precision 10 28 (- 999999) (a - b)"

definition py_float :: "rat \<Rightarrow> rat" where
  "py_float d = round_to_precision 2 53 (- 1022) d"

text \<open>
  The price difference is \<open>abs(float(p1.price - p2.price))\<close>, compared with 50, 100 and
  200. \<open>set(a) & set(b)\<close> is the intersection of the two tag sets and \<open>len\<close> its
  cardinality.
\<close>

definition calculate_similarity_score :: "Product \<Rightarrow> Product \<Rightarrow> int" where
  "calculate_similarity_score product1 product2 =
     (let price_diff = \<bar>py_float (decimal_sub (product_price product1) (product_price product2))\<bar> in
        (if matches_subcategory product1 (subcategory product2) then 10 else 0)
        + (if matches_brand product1 (brand product2) then 5 else 0)
        + (if price_diff < 50 then 8
           else if price_diff < 100 then 5
           else if price_diff < 200 then 2 else 0)
        + (if matches_price_tier product1 (price_tier product2) then 3 else 0)
        + int (card (set (product_tags product1) \<inter> set (product_tags product2))) * 2)"

text \<open>
  The candidate loop of \<open>get_similar_products\<close>: a product with the same id is skipped,
  one of the same category is appended with its score, any other is passed over.
\<close>

fun similar_candidates :: "Product \<Rightarrow> Product list \<Rightarrow> (Product \<times> int) list" where
  "similar_candidates product [] = []"
| "similar_candidates product (p # ps) =
     (if product_id p = product_id product then similar_candidates product ps
      else if matches_category p (category product) then
        (p, calculate_similarity_score product p) # similar_candidates product ps
      else similar_candidates product ps)"

definition get_similar_products :: "Product list \<Rightarrow> Product \<Rightarrow> int \<Rightarrow> Product list" where
  "get_similar_products all_products product limit =
     (let similar = similar_candidates product (get_available_products all_products);
          similar = sort_reverse snd similar
      in map fst (py_slice_to similar limit))"

text \<open>
  \<open>get_products_by_categories\<close>: the loop extends the result by each category's matches,
  the result is then filtered to available products, and \<open>if limit:\<close> cuts it only for a
  limit that is given and is not 0.
\<close>

definition get_products_by_categories :: "Product list \<Rightarrow> string list \<Rightarrow> int option \<Rightarrow> Product list" where
  "get_products_by_categories all_products categories limit =
     (let products = foldl (\<lambda>acc c. acc @ get_products_by_category all_products c) [] categories;
          products = filter is_available products
      in case limit of
           None \<Rightarrow> products
         | Some l \<Rightarrow> if l \<noteq> 0 then py_slice_to products l else products)"

text \<open>
  The ranked list that \<open>get_recommendations_for_user\<close> cuts to the limit: the available
  products with their scores, after the sort.
\<close>

definition scored_products_sorted :: "Product list \<Rightarrow> User \<Rightarrow> (Product \<times> int) list" where
  "scored_products_sorted all_products u =
     sort_reverse snd
       (map (\<lambda>p. (p, calculate_product_score_for_user p u)) (get_available_products all_products))"

section \<open>Conversation state machine (src/models/conversation)\<close>

datatype MessageRole = SYSTEM | USER | ASSISTANT

datatype ConversationStatus = ACTIVE | COMPLETED | ABANDONED

text \<open>
  A \<open>datetime\<close> is a count of microseconds. \<open>datetime.now()\<close> reads the clock; every
  operation that calls it takes the reading as an argument. Metadata dictionaries are
  association lists in insertion order.
\<close>

type_synonym datetime = int

datatype meta_value = MetaStr string | MetaInt int | MetaNone

type_synonym metadata_dict = "(string \<times> meta_value) list"

record MessageSchema =
  role :: MessageRole
  content :: string
  timestamp :: datetime
  msg_metadata :: metadata_dict

definition new_MessageSchema ::
  "MessageRole \<Rightarrow> string \<Rightarrow> datetime \<Rightarrow> metadata_dict \<Rightarrow> error + MessageSchema" where
  "new_MessageSchema r c t md =
     (if is_blank c then Inl (ValueError ''Message content cannot be empty'')
      else Inr \<lparr>role = r, content = c, timestamp = t, msg_metadata = md\<rparr>)"

definition is_system_message :: "MessageSchema \<Rightarrow> bool" where
  "is_system_message m = (role m = SYSTEM)"

text \<open>\<open>metadata or {}\<close>: a missing dictionary is the empty one.\<close>

definition metadata_or_empty :: "metadata_dict option \<Rightarrow> metadata_dict" where
  "metadata_or_empty md = (case md of None \<Rightarrow> [] | Some d \<Rightarrow> d)"

definition create_system_message ::
  "string \<Rightarrow> metadata_dict option \<Rightarrow> datetime \<Rightarrow> error + MessageSchema" where
  "create_system_message c md now = new_MessageSchema SYSTEM c now (metadata_or_empty md)"

definition create_user_message ::
  "string \<Rightarrow> metadata_dict option \<Rightarrow> datetime \<Rightarrow> error + MessageSchema" where
  "create_user_message c md now = new_MessageSchema USER c now (metadata_or_empty md)"

definition create_assistant_message ::
  "string \<Rightarrow> metadata_dict option \<Rightarrow> datetime \<Rightarrow> error + MessageSchema" where
  "create_assistant_message c md now = new_MessageSchema ASSISTANT c now (metadata_or_empty md)"

record Conversation =
  conversation_id :: string
  user_persona_id :: string
  messages :: "MessageSchema list"
  status :: ConversationStatus
  started_at :: datetime
  ended_at :: "datetime option"
  metadata :: metadata_dict

definition is_active :: "Conversation \<Rightarrow> bool" where
  "is_active c = (status c = ACTIVE)"

definition create_new :: "string \<Rightarrow> string \<Rightarrow> metadata_dict option \<Rightarrow> datetime \<Rightarrow> Conversation" where
  "create_new cid pid md now =
     \<lparr>conversation_id = cid, user_persona_id = pid, messages = [], status = ACTIVE,
      started_at = now, ended_at = None, metadata = metadata_or_empty md\<rparr>"

definition get_last_n_messages :: "Conversation \<Rightarrow> int \<Rightarrow> MessageSchema list" where
  "get_last_n_messages c n = (if n \<le> 0 then [] else py_slice_from (messages c) (- n))"

definition get_context_window :: "Conversation \<Rightarrow> int \<Rightarrow> MessageSchema list" where
  "get_context_window c window_size =
     filter (\<lambda>msg. \<not> is_system_message msg) (get_last_n_messages c window_size)"

text \<open>
  The mutating operations return the conversation after the call, or the exception; an
  exception leaves the conversation as it was, since each operation checks before it
  writes. The \<open>add_*_message\<close> operations build the message first, then append it.
\<close>

definition add_message :: "Conversation \<Rightarrow> MessageSchema \<Rightarrow> error + Conversation" where
  "add_message c m =
     (if \<not> is_active c then Inl (ValueError ''Cannot add message to inactive conversation'')
      else Inr (c\<lparr>messages := messages c @ [m]\<rparr>))"

definition add_created :: "Conversation \<Rightarrow> error + MessageSchema \<Rightarrow> error + (MessageSchema \<times> Conversation)" where
  "add_created c created =
     (case created of
        Inl e \<Rightarrow> Inl e
      | Inr m \<Rightarrow> (case add_message c m of Inl e \<Rightarrow> Inl e | Inr c' \<Rightarrow> Inr (m, c')))"

definition add_user_message ::
  "Conversation \<Rightarrow> string \<Rightarrow> metadata_dict option \<Rightarrow> datetime \<Rightarrow> error + (MessageSchema \<times> Conversation)" where
  "add_user_message c text md now = add_created c (create_user_message text md now)"

definition add_assistant_message ::
  "Conversation \<Rightarrow> string \<Rightarrow> metadata_dict option \<Rightarrow> datetime \<Rightarrow> error + (MessageSchema \<times> Conversation)" where
  "add_assistant_message c text md now = add_created c (create_assistant_message text md now)"

definition add_system_message ::
  "Conversation \<Rightarrow> string \<Rightarrow> metadata_dict option \<Rightarrow> datetime \<Rightarrow> error + (MessageSchema \<times> Conversation)" where
  "add_system_message c text md now = add_created c (create_system_message text md now)"

definition complete_conversation :: "Conversation \<Rightarrow> datetime \<Rightarrow> error + Conversation" where
  "complete_conversation c now =
     (if \<not> is_active c then Inl (ValueError ''Conversation is already inactive'')
      else Inr (c\<lparr>status := COMPLETED, ended_at := Some now\<rparr>))"

definition abandon_conversation :: "Conversation \<Rightarrow> datetime \<Rightarrow> error + Conversation" where
  "abandon_conversation c now =
     (if \<not> is_active c then Inl (ValueError ''Conversation is already inactive'')
      else Inr (c\<lparr>status := ABANDONED, ended_at := Some now\<rparr>))"

section \<open>External call with retries (src/services/llm/service.py)\<close>

text \<open>
  The provider is an oracle: \<open>api k\<close> is what the \<open>k\<close>-th call of \<open>_call_openai_api\<close> does,
  an exception or the text of the reply. \<open>time.sleep\<close> is recorded: the wrapper returns,
  besides its result, the waits in the order they were slept and the number of calls it
  made.
\<close>

definition is_rate_limit :: "string \<Rightarrow> bool" where
  "is_rate_limit last_error = str_in ''rate limit'' (lower last_error)"

fun str_of_nat :: "nat \<Rightarrow> string" where
  "str_of_nat n =
     (if n < 10 then [char_of (48 + n)] else str_of_nat (n div 10) @ [char_of (48 + n mod 10)])"

definition str_of_int :: "int \<Rightarrow> string" where
  "str_of_int i = (if i < 0 then CHR ''-'' # str_of_nat (nat (- i)) else str_of_nat (nat i))"

text \<open>
  The loop \<open>for attempt in range(1, max_retries + 1)\<close>, entered at \<open>attempt\<close>. Only an
  \<open>LLMServiceError\<close> is caught; the last attempt re-raises it. The statement after the
  loop is reached only when the range is empty, with \<open>last_error\<close> still \<open>None\<close>.
\<close>

function retry_loop ::
  "(nat \<Rightarrow> error + string) \<Rightarrow> int \<Rightarrow> nat \<Rightarrow> (error + string) \<times> rat list \<times> nat" where
  "retry_loop api max_retries attempt =
     (if max_retries < int attempt then
        (Inl (LLMServiceError (''Failed after '' @ str_of_int max_retries
                               @ '' attempts. Last error: None'')), [], 0)
      else
        (case api attempt of
           Inr reply \<Rightarrow> (Inr reply, [], 1)
         | Inl (LLMServiceError last_error) \<Rightarrow>
             (if is_rate_limit last_error \<and> int attempt < max_retries then
                (let wait_time = 2 ^ attempt + of_nat attempt * (1 / 2);
                     (r, sleeps, calls) = retry_loop api max_retries (attempt + 1)
                 in (r, wait_time # sleeps, calls + 1))
              else if int attempt < max_retries then
                (let wait_time = 2 ^ attempt;
                     (r, sleeps, calls) = retry_loop api max_retries (attempt + 1)
                 in (r, wait_time # sleeps, calls + 1))
              else (Inl (LLMServiceError last_error), [], 1))
         | Inl e \<Rightarrow> (Inl e, [], 1)))"
  by pat_completeness auto
termination
  by (relation "measure (\<lambda>(api, max_retries, attempt). nat (max_retries + 1 - int attempt))") auto

definition call_openai_api_with_retry ::
  "(nat \<Rightarrow> error + string) \<Rightarrow> int \<Rightarrow> (error + string) \<times> rat list \<times> nat" where
  "call_openai_api_with_retry api max_retries = retry_loop api max_retries 1"

text \<open>
  The wait before the next attempt, both branches of the handler in one formula:
  \<open>2 ** attempt\<close> seconds, and \<open>attempt * 0.5\<close> more after a rate-limit error.
\<close>

definition backoff_wait :: "string \<Rightarrow> nat \<Rightarrow> rat" where
  "backoff_wait last_error attempt =
     2 ^ attempt + (if is_rate_limit last_error then of_nat attempt * (1 / 2) else 0)"

declare retry_loop.simps [simp del]

text \<open>
  \<open>generate_response\<close> builds the prompt and calls the wrapper; whatever is raised inside
  comes out as an \<open>LLMServiceError\<close>. An \<open>LLMServiceError\<close> is not an \<open>OpenAIError\<close>, so
  the second handler rewraps it.
\<close>

definition generate_response :: "(nat \<Rightarrow> error + string) \<Rightarrow> int \<Rightarrow> error + string" where
  "generate_response api max_retries =
     (case fst (call_openai_api_with_retry api max_retries) of
        Inr response \<Rightarrow> Inr response
      | Inl e \<Rightarrow> Inl (LLMServiceError (''Unexpected error generating response: '' @ str_of_error e)))"

section \<open>Session orchestrator (src/services/conversation/service.py)\<close>

text \<open>
  The result of intent analysis. \<open>analyze_user_intent\<close> never raises: a failure of the
  call or of the parse gives intent \<open>unknown\<close>, no categories and no budget.
\<close>

record IntentAnalysis =
  intent :: string
  categories :: "string list"
  budget :: "rat option"
  requirements :: "string list"

definition determine_conversation_stage :: "IntentAnalysis \<Rightarrow> string" where
  "determine_conversation_stage ia =
     (case map_of [(''browsing'', ''discovery''),
                   (''asking_question'', ''discovery''),
                   (''requesting_recommendation'', ''recommendation''),
                   (''comparing_products'', ''comparison''),
                   (''ready_to_buy'', ''closing''),
                   (''objection'', ''objection_handling'')] (intent ia) of
        Some stage \<Rightarrow> stage
      | None \<Rightarrow> ''discovery'')"

text \<open>
  \<open>if categories:\<close> is true of a non-empty list and \<open>if budget:\<close> of a budget that is
  given and is not 0.
\<close>

definition get_relevant_products :: "Product list \<Rightarrow> int \<Rightarrow> User \<Rightarrow> IntentAnalysis \<Rightarrow> Product list" where
  "get_relevant_products all_products limit u ia =
     (let products =
            (if categories ia \<noteq> [] then
               get_products_by_categories all_products (categories ia) (Some limit)
             else get_recommendations_for_user all_products u limit)
      in case budget ia of
           None \<Rightarrow> products
         | Some b \<Rightarrow> if b \<noteq> 0 then filter (\<lambda>p. product_price p \<le> b) products else products)"

text \<open>
  The two handlers of \<open>process_user_message\<close>: an \<open>LLMServiceError\<close> and any other
  exception are both raised again as a \<open>ConversationServiceError\<close> that quotes the cause.
\<close>

definition wrap_process_error :: "error \<Rightarrow> error" where
  "wrap_process_error e =
     (case e of
        LLMServiceError m \<Rightarrow> ConversationServiceError (''LLM service error: '' @ m)
      | _ \<Rightarrow> ConversationServiceError (''Failed to process user message: '' @ str_of_error e))"

text \<open>
  One user turn. \<open>analyze\<close> and \<open>generate\<close> are the two calls into the LLM service,
  \<open>all_products\<close> the catalog and \<open>limit\<close> the configured recommendation limit; \<open>now1\<close>
  and \<open>now2\<close> are the clock readings of the two messages. The conversation is mutated in
  place, so the function returns the conversation as the call leaves it, together with
  the reply or the exception.
\<close>

definition process_user_message ::
  "Product list \<Rightarrow> int \<Rightarrow> (string \<Rightarrow> IntentAnalysis)
     \<Rightarrow> (Conversation \<Rightarrow> User \<Rightarrow> Product list \<Rightarrow> string \<Rightarrow> error + string)
     \<Rightarrow> Conversation \<Rightarrow> User \<Rightarrow> string \<Rightarrow> datetime \<Rightarrow> datetime
     \<Rightarrow> (error + string) \<times> Conversation" where
  "process_user_message all_products limit analyze generate c u user_message now1 now2 =
     (case add_user_message c user_message None now1 of
        Inl e \<Rightarrow> (Inl (wrap_process_error e), c)
      | Inr (m, c1) \<Rightarrow>
          (let intent_analysis = analyze user_message;
               conversation_stage = determine_conversation_stage intent_analysis;
               available_products = get_relevant_products all_products limit u intent_analysis
           in case generate c1 u available_products conversation_stage of
                Inl e \<Rightarrow> (Inl (wrap_process_error e), c1)
              | Inr assistant_response \<Rightarrow>
                  (case add_assistant_message c1 assistant_response
                          (Some [(''stage'', MetaStr conversation_stage),
                                 (''intent'', MetaStr (intent intent_analysis)),
                                 (''products_shown'', MetaInt (int (length available_products)))])
                          now2 of
                     Inl e \<Rightarrow> (Inl (wrap_process_error e), c1)
                   | Inr (m2, c2) \<Rightarrow> (Inr assistant_response, c2))))"

section \<open>Sample catalog and persona\<close>

text \<open>
  Concrete inputs for the examples below: a persona with budget 100 to 500 and sweet spot
  300, and headphones that differ in id, price, tier and tags; the last two are priced
  50 and \<open>1e-15\<close>.
\<close>

definition sample_product ::
  "string \<Rightarrow> rat \<Rightarrow> StockStatus \<Rightarrow> PriceTier \<Rightarrow> string list \<Rightarrow> Product" where
  "sample_product pid pr st tier tgs =
     \<lparr>product_id = pid, sku = ''SKU-'' @ pid, name = ''Noise Cancelling Headphones'',
      category = ''Audio'', subcategory = ''Headphones'', brand = ''Acme'',
      description = ''Wireless headphones with long battery life'',
      price_info = \<lparr>price = pr, original_price = pr + 50, currency = ''USD'',
                    discount_percentage = 10\<rparr>,
      stock_info = \<lparr>stock_status = st, quantity = 10, reorder_level = 2\<rparr>,
      features = [''Bluetooth 5.0'', ''Active noise cancellation''],
      price_tier = tier,
      product_metadata = \<lparr>rating = 46 / 10, review_count = 12, is_featured = True,
                          is_new_arrival = False, tags = tgs\<rparr>\<rparr>"

definition sample_user :: User where
  "sample_user =
     \<lparr>persona_id = ''P1'', user_name = ''Ann'', categories_of_interest = [''audio''],
      key_features_valued = [''bluetooth'', ''Battery'', ''waterproof''],
      budget_range = \<lparr>range_min = 100, range_max = 500, range_sweet_spot = Some 300\<rparr>,
      deal_breakers = []\<rparr>"

definition product_200 :: Product where
  "product_200 = sample_product ''A'' 200 IN_STOCK MID_RANGE [''wireless'', ''anc'', ''travel'']"

definition product_350 :: Product where
  "product_350 = sample_product ''B'' 350 IN_STOCK MID_RANGE [''wireless'', ''anc'', ''studio'']"

definition product_600 :: Product where
  "product_600 = sample_product ''C'' 600 LOW_STOCK PREMIUM [''wireless'']"

definition product_50 :: Product where
  "product_50 = sample_product ''D'' 50 IN_STOCK BUDGET []"

definition product_tiny :: Product where
  "product_tiny = sample_product ''E'' (1 / 10 ^ 15) IN_STOCK BUDGET []"

definition sample_message :: "MessageRole \<Rightarrow> string \<Rightarrow> datetime \<Rightarrow> MessageSchema" where
  "sample_message r c t = \<lparr>role = r, content = c, timestamp = t, msg_metadata = []\<rparr>"

definition sample_conversation :: "ConversationStatus \<Rightarrow> Conversation" where
  "sample_conversation st =
     \<lparr>conversation_id = ''CONV-1'', user_persona_id = ''P1'',
      messages = [sample_message USER ''hello'' 10, sample_message SYSTEM ''note'' 11,
                  sample_message ASSISTANT ''hi there'' 12, sample_message USER ''headphones?'' 13],
      status = st, started_at = 10,
      ended_at = (if st = ACTIVE then None else Some 20), metadata = []\<rparr>"

text \<open>
  A provider that fails its first \<open>failures\<close> calls and then answers, and an intent
  analysis that finds nothing.
\<close>

definition sample_api :: "nat \<Rightarrow> nat \<Rightarrow> error + string" where
  "sample_api failures k =
     (if k \<le> failures then Inl (LLMServiceError (''API error: attempt '' @ str_of_nat k))
      else Inr ''Happy to help'')"

definition sample_analyze :: "string \<Rightarrow> IntentAnalysis" where
  "sample_analyze text = \<lparr>intent = ''browsing'', categories = [], budget = None, requirements = []\<rparr>"

section \<open>Ranking lemmas\<close>

text \<open>
  A list sorted by an integer key splits at any threshold: the elements below it come
  first.
\<close>

lemma sorted_split_at:
  fixes g :: "'a \<Rightarrow> int"
  shows "sorted (map g ys) \<Longrightarrow> ys = filter (\<lambda>x. g x < c) ys @ filter (\<lambda>x. \<not> g x < c) ys"
proof (induction ys)
  case Nil
  then show ?case by simp
next
  case (Cons y ys)
  then have ih: "ys = filter (\<lambda>x. g x < c) ys @ filter (\<lambda>x. \<not> g x < c) ys" by simp
  show ?case
  proof (cases "g y < c")
    case True
    then show ?thesis using ih by simp
  next
    case False
    with Cons.prems have "\<forall>x \<in> set ys. \<not> g x < c" by auto
    then have "filter (\<lambda>x. g x < c) ys = []" by (simp add: filter_empty_conv)
    moreover from \<open>\<forall>x \<in> set ys. \<not> g x < c\<close> have "filter (\<lambda>x. \<not> g x < c) ys = ys" by simp
    ultimately show ?thesis using False by simp
  qed
qed

lemma sorted_sort_reverse: "sorted (map (\<lambda>x. - f x) (sort_reverse f xs))"
  by (simp add: sort_reverse_def)

lemma set_sort_reverse: "set (sort_reverse f xs) = set xs"
  by (simp add: sort_reverse_def)

lemma length_sort_reverse: "length (sort_reverse f xs) = length xs"
  by (simp add: sort_reverse_def)

lemma filter_sort_reverse: "filter P (sort_reverse f xs) = sort_reverse f (filter P xs)"
  by (simp add: sort_reverse_def filter_sort)

lemma py_slice_to_take: "\<exists>k. py_slice_to xs l = take k xs"
  by (auto simp: py_slice_to_def)

lemma score_within: "is_within_budget p (budget_min u) (budget_max u) \<Longrightarrow> 10 \<le> calculate_product_score_for_user p u"
  by (simp add: calculate_product_score_for_user_def)

lemma score_outside: "\<not> is_within_budget p (budget_min u) (budget_max u) \<Longrightarrow> calculate_product_score_for_user p u = 0"
  by (simp add: calculate_product_score_for_user_def)

lemma recs_eq: "get_recommendations_for_user all_products u limit = map fst (py_slice_to (scored_products_sorted all_products u) limit)"
  by (simp add: get_recommendations_for_user_def scored_products_sorted_def Let_def)

lemma scored_products_sorted_snd: "x \<in> set (scored_products_sorted all_products u) \<Longrightarrow> snd x = calculate_product_score_for_user (fst x) u"
  by (auto simp: scored_products_sorted_def set_sort_reverse)

lemma scored_products_sorted_split:
  "scored_products_sorted a u = filter (\<lambda>x. is_within_budget (fst x) (budget_min u) (budget_max u)) (scored_products_sorted a u)
     @ filter (\<lambda>x. \<not> is_within_budget (fst x) (budget_min u) (budget_max u)) (scored_products_sorted a u)"
proof -
  let ?s = "scored_products_sorted a u"
  let ?W = "\<lambda>x. is_within_budget (fst x) (budget_min u) (budget_max u)"
  have "sorted (map (\<lambda>x. - snd x) ?s)" by (simp add: scored_products_sorted_def sorted_sort_reverse)
  then have "?s = filter (\<lambda>x. - snd x < 0) ?s @ filter (\<lambda>x. \<not> - snd x < 0) ?s"
    by (rule sorted_split_at)
  moreover have "\<And>x. x \<in> set ?s \<Longrightarrow> (- snd x < 0) = ?W x"
    using score_within score_outside scored_products_sorted_snd by (metis neg_less_0_iff_less less_le_trans zero_less_numeral less_irrefl)
  then have "filter (\<lambda>x. - snd x < 0) ?s = filter ?W ?s" "filter (\<lambda>x. \<not> - snd x < 0) ?s = filter (\<lambda>x. \<not> ?W x) ?s"
    by (auto intro: filter_cong)
  ultimately show ?thesis by simp
qed

lemma take_split_filter:
  assumes "xs = filter P xs @ filter (\<lambda>x. \<not> P x) xs"
  shows "take k xs = filter P (take k xs) @ filter (\<lambda>x. \<not> P x) (take k xs)"
proof -
  let ?A = "filter P xs" and ?B = "filter (\<lambda>x. \<not> P x) xs"
  have t: "take k xs = take k ?A @ take (k - length ?A) ?B"
    using assms by (metis take_append)
  have a1: "filter P (take k ?A) = take k ?A"
    by (auto simp: filter_id_conv dest: in_set_takeD)
  have a2: "filter P (take (k - length ?A) ?B) = []"
    by (auto simp: filter_empty_conv dest: in_set_takeD)
  have a3: "filter (\<lambda>x. \<not> P x) (take k ?A) = []"
    by (auto simp: filter_empty_conv dest: in_set_takeD)
  have a4: "filter (\<lambda>x. \<not> P x) (take (k - length ?A) ?B) = take (k - length ?A) ?B"
    by (auto simp: filter_id_conv dest: in_set_takeD)
  have "filter P (take k xs) @ filter (\<lambda>x. \<not> P x) (take k xs)
      = filter P (take k ?A @ take (k - length ?A) ?B) @ filter (\<lambda>x. \<not> P x) (take k ?A @ take (k - length ?A) ?B)"
    using t by simp
  also have "\<dots> = take k ?A @ take (k - length ?A) ?B"
    using a1 a2 a3 a4 by simp
  finally show ?thesis using t by simp
qed

lemma take_all_filter:
  assumes "xs = filter P xs @ filter (\<lambda>x. \<not> P x) xs" and "k \<le> length (filter P xs)"
  shows "\<forall>x \<in> set (take k xs). P x"
proof -
  have "take k xs = take k (filter P xs)"
    using assms by (metis take_append diff_is_0_eq take_0 append_Nil2)
  then show ?thesis by (auto dest: in_set_takeD)
qed

lemma filter_map_fst: "filter P (map fst xs) = map fst (filter (\<lambda>x. P (fst x)) xs)"
  by (induction xs) auto

lemma recs_partition:
  "get_recommendations_for_user a u limit
     = filter (\<lambda>p. is_within_budget p (budget_min u) (budget_max u)) (get_recommendations_for_user a u limit)
       @ filter (\<lambda>p. \<not> is_within_budget p (budget_min u) (budget_max u)) (get_recommendations_for_user a u limit)"
proof -
  obtain k where k: "py_slice_to (scored_products_sorted a u) limit = take k (scored_products_sorted a u)"
    using py_slice_to_take by blast
  let ?W = "\<lambda>x. is_within_budget (fst x) (budget_min u) (budget_max u)"
  have "take k (scored_products_sorted a u) = filter ?W (take k (scored_products_sorted a u)) @ filter (\<lambda>x. \<not> ?W x) (take k (scored_products_sorted a u))"
    by (rule take_split_filter) (rule scored_products_sorted_split)
  then have "map fst (take k (scored_products_sorted a u))
     = map fst (filter ?W (take k (scored_products_sorted a u))) @ map fst (filter (\<lambda>x. \<not> ?W x) (take k (scored_products_sorted a u)))"
    by (metis map_append)
  then show ?thesis
    by (simp add: recs_eq k filter_map_fst)
qed

lemma length_within_sorted:
  "length (filter (\<lambda>x. is_within_budget (fst x) (budget_min u) (budget_max u)) (scored_products_sorted a u))
     = length (filter (\<lambda>p. is_within_budget p (budget_min u) (budget_max u)) (get_available_products a))"
proof -
  have "length (filter (\<lambda>x. is_within_budget (fst x) (budget_min u) (budget_max u)) (scored_products_sorted a u))
      = length (filter (\<lambda>x. is_within_budget (fst x) (budget_min u) (budget_max u))
          (map (\<lambda>p. (p, calculate_product_score_for_user p u)) (get_available_products a)))"
    by (simp add: scored_products_sorted_def filter_sort_reverse length_sort_reverse)
  also have "\<dots> = length (filter (\<lambda>p. is_within_budget p (budget_min u) (budget_max u)) (get_available_products a))"
    by (simp add: filter_map comp_def)
  finally show ?thesis .
qed

lemma recs_all_within:
  assumes "0 \<le> limit"
    and "nat limit \<le> length (filter (\<lambda>p. is_within_budget p (budget_min u) (budget_max u)) (get_available_products a))"
  shows "\<forall>p \<in> set (get_recommendations_for_user a u limit). is_within_budget p (budget_min u) (budget_max u)"
proof -
  let ?W = "\<lambda>x. is_within_budget (fst x) (budget_min u) (budget_max u)"
  have "\<forall>x \<in> set (take (nat limit) (scored_products_sorted a u)). ?W x"
    using scored_products_sorted_split assms(2) by (intro take_all_filter) (simp_all add: length_within_sorted)
  then show ?thesis using assms(1) by (auto simp: recs_eq py_slice_to_def)
qed

lemma recs_subset: "set (get_recommendations_for_user a u limit) \<subseteq> set (get_available_products a)"
proof -
  obtain k where k: "py_slice_to (scored_products_sorted a u) limit = take k (scored_products_sorted a u)"
    using py_slice_to_take by blast
  have "set (map fst (take k (scored_products_sorted a u))) \<subseteq> set (map fst (scored_products_sorted a u))"
    by (auto dest: in_set_takeD)
  also have "\<dots> = set (get_available_products a)"
    by (auto simp: scored_products_sorted_def set_sort_reverse image_iff)
  finally show ?thesis by (simp add: recs_eq k)
qed

lemma recs_rank:
  assumes gt: "calculate_product_score_for_user b u < calculate_product_score_for_user a u"
    and a: "a \<in> set (get_available_products all_products)"
    and i: "i < length (get_recommendations_for_user all_products u limit)"
    and b: "get_recommendations_for_user all_products u limit ! i = b"
  shows "\<exists>j < i. get_recommendations_for_user all_products u limit ! j = a"
proof -
  let ?s = "scored_products_sorted all_products u"
  obtain k where k: "py_slice_to ?s limit = take k ?s"
    using py_slice_to_take by blast
  have r: "get_recommendations_for_user all_products u limit = map fst (take k ?s)"
    by (simp add: recs_eq k)
  have ik: "i < k" and il: "i < length ?s" using i r by simp_all
  have bi: "fst (?s ! i) = b" using b r ik il by simp
  have "(a, calculate_product_score_for_user a u) \<in> set ?s"
    using a by (simp add: scored_products_sorted_def set_sort_reverse)
  then obtain j where j: "j < length ?s" "?s ! j = (a, calculate_product_score_for_user a u)"
    by (auto simp: in_set_conv_nth)
  have si: "snd (?s ! i) = calculate_product_score_for_user b u"
    using scored_products_sorted_snd [of "?s ! i" all_products u] il bi by simp
  have srt: "sorted (map (\<lambda>x. - snd x) ?s)" by (simp add: scored_products_sorted_def sorted_sort_reverse)
  have "j < i"
  proof (rule ccontr)
    assume "\<not> j < i"
    then have "i \<le> j" by simp
    then have "map (\<lambda>x. - snd x) ?s ! i \<le> map (\<lambda>x. - snd x) ?s ! j"
      using srt j(1) sorted_nth_mono [of "map (\<lambda>x. - snd x) ?s" i j] by simp
    then show False using il j si gt by simp
  qed
  moreover have "get_recommendations_for_user all_products u limit ! j = a"
    using r \<open>j < i\<close> ik j by simp
  ultimately show ?thesis by blast
qed

section \<open>Personalized recommendations\<close>

text \<open>
  C1, as the spec states it, fails: a product priced outside the persona's budget scores
  0 but stays in the ranking, and is returned when the limit is larger than the number of
  available products within budget. Here the only available product costs 600, outside
  the budget 100 to 500, and a limit of 5 returns it.
\<close>

theorem recommendations_within_budget_counterexample:
  "\<not> is_within_budget product_600 (budget_min sample_user) (budget_max sample_user) \<and>
   is_available product_600 \<and>
   get_recommendations_for_user [product_600] sample_user 5 = [product_600]"
  by code_simp

text \<open>
  C1, amended. A product outside the budget scores 0 and one within the budget scores at
  least 10. Every returned product is an available one, and for every limit the returned
  list is its within-budget products followed by its out-of-budget products. When the
  limit is not negative and at most the number of available products within the budget,
  no returned product is outside the budget.
\<close>

theorem recommendations_budget_order:
  "(\<not> is_within_budget p (budget_min u) (budget_max u) \<longrightarrow> calculate_product_score_for_user p u = 0) \<and>
   (is_within_budget p (budget_min u) (budget_max u) \<longrightarrow> 10 \<le> calculate_product_score_for_user p u) \<and>
   set (get_recommendations_for_user all_products u limit) \<subseteq> set (get_available_products all_products) \<and>
   get_recommendations_for_user all_products u limit
     = filter (\<lambda>p. is_within_budget p (budget_min u) (budget_max u))
         (get_recommendations_for_user all_products u limit)
       @ filter (\<lambda>p. \<not> is_within_budget p (budget_min u) (budget_max u))
         (get_recommendations_for_user all_products u limit) \<and>
   (0 \<le> limit \<and>
    nat limit \<le> length (filter (\<lambda>p. is_within_budget p (budget_min u) (budget_max u))
                         (get_available_products all_products))
    \<longrightarrow> (\<forall>p \<in> set (get_recommendations_for_user all_products u limit).
           is_within_budget p (budget_min u) (budget_max u)))"
proof (intro conjI impI)
  show "set (get_recommendations_for_user all_products u limit) \<subseteq> set (get_available_products all_products)"
    by (rule recs_subset)
  show "get_recommendations_for_user all_products u limit
     = filter (\<lambda>p. is_within_budget p (budget_min u) (budget_max u))
         (get_recommendations_for_user all_products u limit)
       @ filter (\<lambda>p. \<not> is_within_budget p (budget_min u) (budget_max u))
         (get_recommendations_for_user all_products u limit)"
    by (rule recs_partition)
next
  assume "\<not> is_within_budget p (budget_min u) (budget_max u)"
  then show "calculate_product_score_for_user p u = 0" by (rule score_outside)
next
  assume "is_within_budget p (budget_min u) (budget_max u)"
  then show "10 \<le> calculate_product_score_for_user p u" by (rule score_within)
next
  assume "0 \<le> limit \<and>
    nat limit \<le> length (filter (\<lambda>p. is_within_budget p (budget_min u) (budget_max u))
                         (get_available_products all_products))"
  then show "\<forall>p \<in> set (get_recommendations_for_user all_products u limit).
           is_within_budget p (budget_min u) (budget_max u)"
    using recs_all_within by blast
qed

theorem recommendations_budget_order_witness:
  "get_recommendations_for_user [product_600, product_350, product_200] sample_user 2
     = [product_200, product_350] \<and>
   is_within_budget product_200 (budget_min sample_user) (budget_max sample_user) \<and>
   is_within_budget product_350 (budget_min sample_user) (budget_max sample_user) \<and>
   calculate_product_score_for_user product_600 sample_user = 0 \<and>
   10 \<le> calculate_product_score_for_user product_200 sample_user"
proof -
  have r: "get_recommendations_for_user [product_600, product_350, product_200] sample_user 2
     = [product_200, product_350]"
    by code_simp
  have h: "(0::int) \<le> 2 \<and>
     nat 2 \<le> length (filter (\<lambda>p. is_within_budget p (budget_min sample_user) (budget_max sample_user))
                        (get_available_products [product_600, product_350, product_200]))"
    by code_simp
  have o: "\<not> is_within_budget product_600 (budget_min sample_user) (budget_max sample_user)"
    by code_simp
  have i: "is_within_budget product_200 (budget_min sample_user) (budget_max sample_user)"
    by code_simp
  note T6 = recommendations_budget_order [of product_600 sample_user
      "[product_600, product_350, product_200]" 2]
  note T2 = recommendations_budget_order [of product_200 sample_user
      "[product_600, product_350, product_200]" 2]
  have z: "calculate_product_score_for_user product_600 sample_user = 0"
    by (rule mp [OF conjunct1 [OF T6] o])
  have t: "10 \<le> calculate_product_score_for_user product_200 sample_user"
    by (rule mp [OF conjunct1 [OF conjunct2 [OF T2]] i])
  have a: "\<forall>p \<in> set [product_200, product_350].
             is_within_budget p (budget_min sample_user) (budget_max sample_user)"
    using mp [OF conjunct2 [OF conjunct2 [OF conjunct2 [OF conjunct2 [OF T2]]]] h]
    by (simp only: r)
  have w2: "is_within_budget product_200 (budget_min sample_user) (budget_max sample_user)"
    and w3: "is_within_budget product_350 (budget_min sample_user) (budget_max sample_user)"
    using a by simp_all
  show ?thesis
    by (intro conjI) (rule r, rule w2, rule w3, rule z, rule t)
qed

text \<open>
  C2, as the spec states it, fails: its sum leaves out the 5 points for a price at or
  below the sweet spot. The sample product priced 200 meets every condition of the
  example (budget 100 to 500, sweet spot 300, interested category, two valued features,
  featured, on sale, rating 4.6) and does not score 40; the one priced 350 does not
  score 34.
\<close>

theorem scoring_example_counterexample:
  "budget_min sample_user = 100 \<and> budget_max sample_user = 500 \<and>
   budget_sweet_spot sample_user = 300 \<and>
   product_price product_200 = 200 \<and> product_price product_350 = 350 \<and>
   is_interested_in_category sample_user (category product_200) \<and>
   length (filter (has_feature_keyword product_200) (key_features_valued sample_user)) = 2 \<and>
   product_is_featured product_200 \<and> is_on_sale product_200 \<and>
   product_rating product_200 = 46 / 10 \<and>
   calculate_product_score_for_user product_200 sample_user \<noteq> 40 \<and>
   calculate_product_score_for_user product_350 sample_user \<noteq> 34"
  by code_simp

text \<open>
  C2, amended. For a persona with budget 100 to 500 and sweet spot 300, a product priced
  200 in an interested category, matching two valued features, featured, on sale and
  rated 4.6 scores 45 (10 + 5 + 15 + 6 + 2 + 3 + 4); a product with the same attributes
  priced 350 scores 40, and ranks lower: wherever it is returned, the first product, if
  it is in the catalog and available, is returned before it.
\<close>

theorem scoring_example:
  assumes u: "budget_min u = 100" "budget_max u = 500" "budget_sweet_spot u = 300"
    and p1: "product_price p1 = 200" "is_interested_in_category u (category p1)"
      "length (filter (has_feature_keyword p1) (key_features_valued u)) = 2"
      "product_is_featured p1" "is_on_sale p1" "product_rating p1 = 46 / 10"
    and p2: "product_price p2 = 350" "is_interested_in_category u (category p2)"
      "length (filter (has_feature_keyword p2) (key_features_valued u)) = 2"
      "product_is_featured p2" "is_on_sale p2" "product_rating p2 = 46 / 10"
  shows "calculate_product_score_for_user p1 u = 45 \<and>
         calculate_product_score_for_user p2 u = 40 \<and>
         (\<forall>all_products limit i.
            p1 \<in> set all_products \<and> is_available p1 \<and>
            i < length (get_recommendations_for_user all_products u limit) \<and>
            get_recommendations_for_user all_products u limit ! i = p2
            \<longrightarrow> (\<exists>j < i. get_recommendations_for_user all_products u limit ! j = p1))"
proof -
  have s1: "calculate_product_score_for_user p1 u = 45"
    using u p1 by (simp add: calculate_product_score_for_user_def is_within_budget_def)
  have s2: "calculate_product_score_for_user p2 u = 40"
    using u p2 by (simp add: calculate_product_score_for_user_def is_within_budget_def)
  have lt: "calculate_product_score_for_user p2 u < calculate_product_score_for_user p1 u"
    using s1 s2 by simp
  have "\<exists>j < i. get_recommendations_for_user all_products u limit ! j = p1"
    if "p1 \<in> set all_products" "is_available p1"
      "i < length (get_recommendations_for_user all_products u limit)"
      "get_recommendations_for_user all_products u limit ! i = p2"
    for all_products limit i
    using recs_rank [OF lt _ that(3) that(4)] that(1,2) by (simp add: get_available_products_def)
  then show ?thesis using s1 s2 by blast
qed


theorem scoring_example_witness:
  "calculate_product_score_for_user product_200 sample_user = 45 \<and>
   calculate_product_score_for_user product_350 sample_user = 40 \<and>
   get_recommendations_for_user [product_350, product_200] sample_user 5
     = [product_200, product_350]"
proof -
  have u: "budget_min sample_user = 100" "budget_max sample_user = 500"
    "budget_sweet_spot sample_user = 300"
    by code_simp+
  have p1: "product_price product_200 = 200"
    "is_interested_in_category sample_user (category product_200)"
    "length (filter (has_feature_keyword product_200) (key_features_valued sample_user)) = 2"
    "product_is_featured product_200" "is_on_sale product_200"
    "product_rating product_200 = 46 / 10"
    by code_simp+
  have p2: "product_price product_350 = 350"
    "is_interested_in_category sample_user (category product_350)"
    "length (filter (has_feature_keyword product_350) (key_features_valued sample_user)) = 2"
    "product_is_featured product_350" "is_on_sale product_350"
    "product_rating product_350 = 46 / 10"
    by code_simp+
  have r: "get_recommendations_for_user [product_350, product_200] sample_user 5
     = [product_200, product_350]"
    by code_simp
  show ?thesis
    using scoring_example [OF u p1 p2] r by blast
qed

section \<open>Similarity\<close>

lemma similar_candidates_fst:
  "map fst (similar_candidates product ps)
     = filter (\<lambda>p. product_id p \<noteq> product_id product \<and> matches_category p (category product)) ps"
  by (induction ps) auto

lemma similar_candidates_snd:
  "map snd (similar_candidates product ps)
     = map (calculate_similarity_score product) (map fst (similar_candidates product ps))"
  by (induction ps) auto

lemma get_similar_subset:
  "set (get_similar_products all_products product limit)
     \<subseteq> {p \<in> set all_products. is_available p \<and> product_id p \<noteq> product_id product
            \<and> matches_category p (category product)}"
proof -
  let ?s = "sort_reverse snd (similar_candidates product (get_available_products all_products))"
  obtain k where k: "py_slice_to ?s limit = take k ?s"
    using py_slice_to_take by blast
  have "set (map fst (take k ?s)) \<subseteq> set (map fst ?s)"
    by (auto dest: in_set_takeD)
  also have "\<dots> = set (map fst (similar_candidates product (get_available_products all_products)))"
    by (simp add: set_sort_reverse)
  also have "\<dots> = {p \<in> set all_products. is_available p \<and> product_id p \<noteq> product_id product
            \<and> matches_category p (category product)}"
    by (auto simp: similar_candidates_fst get_available_products_def)
  finally show ?thesis by (simp add: get_similar_products_def Let_def k)
qed

text \<open>
  C3, as the spec states it, fails in its example: two products that share subcategory,
  brand and exactly two tags also get 3 points when they share the price tier. The two
  sample products do, their price difference is 150 (band bonus 2), and the score is 24,
  not 19 + 2.
\<close>

theorem similarity_score_example_counterexample:
  "matches_subcategory product_200 (subcategory product_350) \<and>
   matches_brand product_200 (brand product_350) \<and>
   card (set (product_tags product_200) \<inter> set (product_tags product_350)) = 2 \<and>
   \<bar>py_float (decimal_sub (product_price product_200) (product_price product_350))\<bar> = 150 \<and>
   calculate_similarity_score product_200 product_350 = 24 \<and>
   calculate_similarity_score product_200 product_350 \<noteq> 19 + 2"
  by code_simp

text \<open>
  C3, amended. The candidates of \<open>get_similar_products\<close> are, in catalog order, the
  available products of the same category (compared in lower case) whose id differs from
  the product's, each with its similarity score, and every returned product is one of
  them. The score is 10 for the same subcategory, 5 for the same brand, 8, 5 or 2 when
  the price difference as the code computes it, the absolute value of the \<open>Decimal\<close>
  difference converted to a float, is below 50, 100 or 200 (first match), 3 for the same
  price tier, and 2 for each tag in both tag sets. Two products sharing subcategory,
  brand and exactly two tags score 19 plus the price-band bonus, plus 3 when they share
  the tier. The bands are decided on the float: for prices 50 and \<open>1e-15\<close> the difference
  rounds to 50.0, outside the first band.
\<close>

theorem similarity_score_rule:
  "map fst (similar_candidates product (get_available_products all_products))
     = filter (\<lambda>p. product_id p \<noteq> product_id product \<and> matches_category p (category product))
         (filter is_available all_products) \<and>
   map snd (similar_candidates product (get_available_products all_products))
     = map (calculate_similarity_score product)
         (map fst (similar_candidates product (get_available_products all_products))) \<and>
   set (get_similar_products all_products product limit)
     \<subseteq> {p \<in> set all_products. is_available p \<and> product_id p \<noteq> product_id product
            \<and> matches_category p (category product)} \<and>
   calculate_similarity_score p1 p2
     = (if lower (subcategory p1) = lower (subcategory p2) then 10 else 0)
       + (if lower (brand p1) = lower (brand p2) then 5 else 0)
       + (if \<bar>py_float (decimal_sub (product_price p1) (product_price p2))\<bar> < 50 then 8
          else if \<bar>py_float (decimal_sub (product_price p1) (product_price p2))\<bar> < 100 then 5
          else if \<bar>py_float (decimal_sub (product_price p1) (product_price p2))\<bar> < 200 then 2 else 0)
       + (if price_tier p1 = price_tier p2 then 3 else 0)
       + 2 * int (card (set (product_tags p1) \<inter> set (product_tags p2))) \<and>
   (matches_subcategory p1 (subcategory p2) \<and> matches_brand p1 (brand p2) \<and>
    card (set (product_tags p1) \<inter> set (product_tags p2)) = 2
    \<longrightarrow> calculate_similarity_score p1 p2
          = 19
            + (if \<bar>py_float (decimal_sub (product_price p1) (product_price p2))\<bar> < 50 then 8
               else if \<bar>py_float (decimal_sub (product_price p1) (product_price p2))\<bar> < 100 then 5
               else if \<bar>py_float (decimal_sub (product_price p1) (product_price p2))\<bar> < 200 then 2 else 0)
            + (if price_tier p1 = price_tier p2 then 3 else 0))"
proof (intro conjI impI)
  show "map fst (similar_candidates product (get_available_products all_products))
     = filter (\<lambda>p. product_id p \<noteq> product_id product \<and> matches_category p (category product))
         (filter is_available all_products)"
    by (simp add: similar_candidates_fst get_available_products_def)
  show "map snd (similar_candidates product (get_available_products all_products))
     = map (calculate_similarity_score product)
         (map fst (similar_candidates product (get_available_products all_products)))"
    by (rule similar_candidates_snd)
  show "set (get_similar_products all_products product limit)
     \<subseteq> {p \<in> set all_products. is_available p \<and> product_id p \<noteq> product_id product
            \<and> matches_category p (category product)}"
    by (rule get_similar_subset)
  show "calculate_similarity_score p1 p2
     = (if lower (subcategory p1) = lower (subcategory p2) then 10 else 0)
       + (if lower (brand p1) = lower (brand p2) then 5 else 0)
       + (if \<bar>py_float (decimal_sub (product_price p1) (product_price p2))\<bar> < 50 then 8
          else if \<bar>py_float (decimal_sub (product_price p1) (product_price p2))\<bar> < 100 then 5
          else if \<bar>py_float (decimal_sub (product_price p1) (product_price p2))\<bar> < 200 then 2 else 0)
       + (if price_tier p1 = price_tier p2 then 3 else 0)
       + 2 * int (card (set (product_tags p1) \<inter> set (product_tags p2)))"
    by (simp add: calculate_similarity_score_def matches_subcategory_def matches_brand_def
        matches_price_tier_def Let_def)
next
  assume "matches_subcategory p1 (subcategory p2) \<and> matches_brand p1 (brand p2) \<and>
    card (set (product_tags p1) \<inter> set (product_tags p2)) = 2"
  then show "calculate_similarity_score p1 p2
          = 19
            + (if \<bar>py_float (decimal_sub (product_price p1) (product_price p2))\<bar> < 50 then 8
               else if \<bar>py_float (decimal_sub (product_price p1) (product_price p2))\<bar> < 100 then 5
               else if \<bar>py_float (decimal_sub (product_price p1) (product_price p2))\<bar> < 200 then 2 else 0)
            + (if price_tier p1 = price_tier p2 then 3 else 0)"
    by (simp add: calculate_similarity_score_def matches_price_tier_def Let_def)
qed

theorem similarity_score_rule_witness:
  "calculate_similarity_score product_200 product_350 = 19 + 2 + 3 \<and>
   get_similar_products [product_600, product_350, product_200] product_200 3
     = [product_350, product_600] \<and>
   calculate_similarity_score product_50
     product_tiny = 10 + 5 + 5 + 3"
proof -
  have h: "matches_subcategory product_200 (subcategory product_350) \<and>
    matches_brand product_200 (brand product_350) \<and>
    card (set (product_tags product_200) \<inter> set (product_tags product_350)) = 2"
    by code_simp
  have d: "\<bar>py_float (decimal_sub (product_price product_200) (product_price product_350))\<bar> = 150"
    by code_simp
  have t: "price_tier product_200 = price_tier product_350" by code_simp
  have g: "get_similar_products [product_600, product_350, product_200] product_200 3
     = [product_350, product_600]" by code_simp
  note T = similarity_score_rule [of product_200 "[product_600, product_350, product_200]" 3
      product_200 product_350]
  have 1: "calculate_similarity_score product_200 product_350 = 19 + 2 + 3"
    using mp [OF T [THEN conjunct2, THEN conjunct2, THEN conjunct2, THEN conjunct2] h]
    by (simp add: d t)
  note B = similarity_score_rule [of product_200 "[product_600, product_350, product_200]" 3
      product_50
      product_tiny]
  have b: "lower (subcategory product_50)
        = lower (subcategory product_tiny) \<and>
      lower (brand product_50)
        = lower (brand product_tiny) \<and>
      price_tier product_50
        = price_tier product_tiny \<and>
      card (set (product_tags product_50)
            \<inter> set (product_tags product_tiny)) = 0 \<and>
      \<bar>py_float (decimal_sub (product_price product_50)
                    (product_price product_tiny))\<bar> = 50"
    by code_simp
  have 3: "calculate_similarity_score product_50
     product_tiny = 10 + 5 + 5 + 3"
    using B [THEN conjunct2, THEN conjunct2, THEN conjunct2, THEN conjunct1]
    by (simp add: b)
  show ?thesis
    by (intro conjI) (rule 1, rule g, rule 3)
qed

lemma round_to_precision_minus:
  "round_to_precision b prec emin (- x) = - round_to_precision b prec emin x"
  by (simp add: round_to_precision_def Let_def)

lemma price_diff_commute:
  "\<bar>py_float (decimal_sub a b)\<bar> = \<bar>py_float (decimal_sub b a)\<bar>"
proof -
  have "decimal_sub b a = - decimal_sub a b"
    using round_to_precision_minus [of 10 28 "- 999999" "a - b"] by (simp add: decimal_sub_def)
  then have "py_float (decimal_sub b a) = - py_float (decimal_sub a b)"
    by (simp add: py_float_def round_to_precision_minus)
  then show ?thesis by simp
qed

text \<open>
  C10. The similarity score is symmetric: the score of \<open>(p1, p2)\<close> is the score of
  \<open>(p2, p1)\<close>, for every pair of products.
\<close>

theorem similarity_symmetric:
  "calculate_similarity_score p1 p2 = calculate_similarity_score p2 p1"
proof -
  have "(lower (subcategory p1) = lower (subcategory p2)) = (lower (subcategory p2) = lower (subcategory p1))"
    by (rule eq_commute)
  moreover have "(lower (brand p1) = lower (brand p2)) = (lower (brand p2) = lower (brand p1))"
    by (rule eq_commute)
  moreover have "(price_tier p1 = price_tier p2) = (price_tier p2 = price_tier p1)"
    by (rule eq_commute)
  moreover have "\<bar>py_float (decimal_sub (product_price p1) (product_price p2))\<bar>
      = \<bar>py_float (decimal_sub (product_price p2) (product_price p1))\<bar>"
    by (rule price_diff_commute)
  moreover have "set (product_tags p1) \<inter> set (product_tags p2) = set (product_tags p2) \<inter> set (product_tags p1)"
    by (rule Int_commute)
  ultimately show ?thesis
    by (simp add: calculate_similarity_score_def matches_subcategory_def matches_brand_def
        matches_price_tier_def Let_def)
qed

section \<open>Category-filtered retrieval\<close>

lemma foldl_extend:
  "foldl (\<lambda>acc c. acc @ f c) acc0 cs = acc0 @ concat (map f cs)"
  by (induction cs arbitrary: acc0) auto

lemma count_list_filter:
  "count_list (filter P xs) x = (if P x then count_list xs x else 0)"
  by (induction xs) auto

lemma count_list_concat_filter:
  "count_list (concat (map (\<lambda>c. filter (\<lambda>p. Q p c) xs) cs)) x
     = count_list xs x * length (filter (Q x) cs)"
  by (induction cs) (auto simp: count_list_filter)

text \<open>
  C9, as the spec states it, fails for a limit of 0: \<open>if limit:\<close> treats 0 as no limit,
  so the whole list is returned, not its first 0 entries.
\<close>

theorem categories_retrieval_limit_counterexample:
  "get_products_by_categories [product_200, product_350] [''audio''] (Some 0)
     = [product_200, product_350] \<and>
   get_products_by_categories [product_200, product_350] [''audio''] (Some 0)
     \<noteq> take 0 (filter is_available
                 (concat (map (get_products_by_category [product_200, product_350]) [''audio''])))"
  by code_simp

text \<open>
  C9, amended. \<open>get_products_by_categories\<close> returns the per-category match lists
  concatenated in request order and restricted to available products, cut to its first
  \<open>limit\<close> entries when a positive limit is given; without a limit, or with the limit 0,
  the whole list is returned, and a negative limit \<open>-k\<close> drops the last \<open>k\<close> entries.
  Nothing is de-duplicated: an available product occurs once for each of its occurrences
  in the catalog and each requested category it matches.
\<close>

theorem categories_retrieval:
  "get_products_by_categories all_products cats limit
     = (let products = filter is_available
                         (concat (map (\<lambda>c. filter (\<lambda>p. matches_category p c) all_products) cats))
        in case limit of
             None \<Rightarrow> products
           | Some l \<Rightarrow>
               if 0 < l then take (nat l) products
               else if l = 0 then products
               else take (length products - nat (- l)) products) \<and>
   count_list (get_products_by_categories all_products cats None) p
     = (if is_available p
        then count_list all_products p * length (filter (matches_category p) cats) else 0)"
proof
  show "get_products_by_categories all_products cats limit
     = (let products = filter is_available
                         (concat (map (\<lambda>c. filter (\<lambda>p. matches_category p c) all_products) cats))
        in case limit of
             None \<Rightarrow> products
           | Some l \<Rightarrow>
               if 0 < l then take (nat l) products
               else if l = 0 then products
               else take (length products - nat (- l)) products)"
    by (auto simp: get_products_by_categories_def get_products_by_category_def foldl_extend
        py_slice_to_def Let_def split: option.splits)
  show "count_list (get_products_by_categories all_products cats None) p
     = (if is_available p
        then count_list all_products p * length (filter (matches_category p) cats) else 0)"
    by (simp add: get_products_by_categories_def get_products_by_category_def foldl_extend
        count_list_filter count_list_concat_filter Let_def)
qed

theorem categories_retrieval_witness:
  "get_products_by_categories [product_200, product_350] [''audio'', ''AUDIO''] (Some 3)
     = [product_200, product_350, product_200] \<and>
   count_list (get_products_by_categories [product_200, product_350] [''audio'', ''AUDIO''] None)
     product_200 = 2"
proof -
  have a: "is_available product_200" by code_simp
  have c: "count_list [product_200, product_350] product_200 = 1" by code_simp
  have m: "length (filter (matches_category product_200) [''audio'', ''AUDIO'']) = 2" by code_simp
  have g: "get_products_by_categories [product_200, product_350] [''audio'', ''AUDIO''] (Some 3)
     = [product_200, product_350, product_200]" by code_simp
  show ?thesis
    using categories_retrieval [of "[product_200, product_350]" "[''audio'', ''AUDIO'']" "Some 3" product_200]
      a c m g by simp
qed

section \<open>Conversation lifecycle\<close>

lemma add_created_inactive:
  "\<not> is_active c \<Longrightarrow> add_created c (new_MessageSchema r text now md)
     = Inl (ValueError (if is_blank text then ''Message content cannot be empty''
                        else ''Cannot add message to inactive conversation''))"
  by (simp add: add_created_def new_MessageSchema_def add_message_def)


lemma complete_inr:
  "complete_conversation c now = Inr c' \<Longrightarrow>
     status c = ACTIVE \<and> c' = c\<lparr>status := COMPLETED, ended_at := Some now\<rparr>"
  by (simp add: complete_conversation_def is_active_def split: if_splits)

lemma abandon_inr:
  "abandon_conversation c now = Inr c' \<Longrightarrow>
     status c = ACTIVE \<and> c' = c\<lparr>status := ABANDONED, ended_at := Some now\<rparr>"
  by (simp add: abandon_conversation_def is_active_def split: if_splits)

text \<open>
  C4, as the spec states it, fails twice. On a completed conversation,
  \<open>add_user_message\<close> with a blank text raises the content error of the message
  constructor, which runs before the state check, not the invalid-state error. And
  \<open>complete_conversation\<close> stores the clock reading without comparing it with the start
  time: on a conversation started at 10, a clock reading of 5 is stored as end time.
\<close>

theorem inactive_conversation_counterexample:
  "add_user_message (sample_conversation COMPLETED) ''   '' None 30
     = Inl (ValueError ''Message content cannot be empty'') \<and>
   complete_conversation (sample_conversation ACTIVE) 5
     = Inr ((sample_conversation ACTIVE)\<lparr>status := COMPLETED, ended_at := Some 5\<rparr>) \<and>
   started_at (sample_conversation ACTIVE) = 10 \<and>
   ended_at ((sample_conversation ACTIVE)\<lparr>status := COMPLETED, ended_at := Some 5\<rparr>) = Some 5"
  by code_simp

text \<open>
  C4, amended. On a conversation that is not active, \<open>add_message\<close> fails with the
  invalid-state error (the \<open>ValueError\<close> of the state check), and so do the three
  \<open>add_*_message\<close> operations when the text is not blank; with a blank text they fail
  with the content error of the message constructor. \<open>complete_conversation\<close> and
  \<open>abandon_conversation\<close> fail with the invalid-state error on a conversation that is
  not active. On an active conversation both succeed; a successful call was made on an
  active conversation, leaves a terminal status, keeps start time and messages, and
  stamps the clock reading as end time.
\<close>

theorem inactive_conversation_rejects:
  "(status c \<noteq> ACTIVE \<longrightarrow>
      add_message c m = Inl (ValueError ''Cannot add message to inactive conversation'') \<and>
      add_user_message c text md now
        = Inl (ValueError (if is_blank text then ''Message content cannot be empty''
                           else ''Cannot add message to inactive conversation'')) \<and>
      add_assistant_message c text md now
        = Inl (ValueError (if is_blank text then ''Message content cannot be empty''
                           else ''Cannot add message to inactive conversation'')) \<and>
      add_system_message c text md now
        = Inl (ValueError (if is_blank text then ''Message content cannot be empty''
                           else ''Cannot add message to inactive conversation'')) \<and>
      complete_conversation c now = Inl (ValueError ''Conversation is already inactive'') \<and>
      abandon_conversation c now = Inl (ValueError ''Conversation is already inactive'')) \<and>
   (status c = ACTIVE \<longrightarrow>
      complete_conversation c now = Inr (c\<lparr>status := COMPLETED, ended_at := Some now\<rparr>) \<and>
      abandon_conversation c now = Inr (c\<lparr>status := ABANDONED, ended_at := Some now\<rparr>)) \<and>
   (complete_conversation c now = Inr c' \<or> abandon_conversation c now = Inr c' \<longrightarrow>
      status c = ACTIVE \<and> status c' \<noteq> ACTIVE \<and> ended_at c' = Some now \<and>
      started_at c' = started_at c \<and> messages c' = messages c)"
proof (intro conjI impI)
  assume i: "status c \<noteq> ACTIVE"
  then have na: "\<not> is_active c" by (simp add: is_active_def)
  show "add_message c m = Inl (ValueError ''Cannot add message to inactive conversation'')"
    using na by (simp add: add_message_def)
  show "add_user_message c text md now
        = Inl (ValueError (if is_blank text then ''Message content cannot be empty''
                           else ''Cannot add message to inactive conversation''))"
    unfolding add_user_message_def create_user_message_def by (rule add_created_inactive [OF na])
  show "add_assistant_message c text md now
        = Inl (ValueError (if is_blank text then ''Message content cannot be empty''
                           else ''Cannot add message to inactive conversation''))"
    unfolding add_assistant_message_def create_assistant_message_def by (rule add_created_inactive [OF na])
  show "add_system_message c text md now
        = Inl (ValueError (if is_blank text then ''Message content cannot be empty''
                           else ''Cannot add message to inactive conversation''))"
    unfolding add_system_message_def create_system_message_def by (rule add_created_inactive [OF na])
  show "complete_conversation c now = Inl (ValueError ''Conversation is already inactive'')"
    using na by (simp add: complete_conversation_def)
  show "abandon_conversation c now = Inl (ValueError ''Conversation is already inactive'')"
    using na by (simp add: abandon_conversation_def)
next
  assume "status c = ACTIVE"
  then show "complete_conversation c now = Inr (c\<lparr>status := COMPLETED, ended_at := Some now\<rparr>)"
    by (simp add: complete_conversation_def is_active_def)
next
  assume "status c = ACTIVE"
  then show "abandon_conversation c now = Inr (c\<lparr>status := ABANDONED, ended_at := Some now\<rparr>)"
    by (simp add: abandon_conversation_def is_active_def)
next
  assume d: "complete_conversation c now = Inr c' \<or> abandon_conversation c now = Inr c'"
  then have k: "status c = ACTIVE \<and>
      (c' = c\<lparr>status := COMPLETED, ended_at := Some now\<rparr> \<or> c' = c\<lparr>status := ABANDONED, ended_at := Some now\<rparr>)"
    using complete_inr abandon_inr by blast
  show "status c = ACTIVE" using k by simp
  show "status c' \<noteq> ACTIVE" using k by auto
  show "ended_at c' = Some now" using k by auto
  show "started_at c' = started_at c" using k by auto
  show "messages c' = messages c" using k by auto
qed

theorem inactive_conversation_rejects_witness:
  "add_user_message (sample_conversation COMPLETED) ''hello again'' None 30
     = Inl (ValueError ''Cannot add message to inactive conversation'') \<and>
   add_user_message (sample_conversation COMPLETED) ''   '' None 30
     = Inl (ValueError ''Message content cannot be empty'') \<and>
   complete_conversation (sample_conversation COMPLETED) 30
     = Inl (ValueError ''Conversation is already inactive'') \<and>
   complete_conversation (sample_conversation ACTIVE) 30
     = Inr ((sample_conversation ACTIVE)\<lparr>status := COMPLETED, ended_at := Some 30\<rparr>) \<and>
   ended_at ((sample_conversation ACTIVE)\<lparr>status := COMPLETED, ended_at := Some 30\<rparr>) = Some 30 \<and>
   status ((sample_conversation ACTIVE)\<lparr>status := COMPLETED, ended_at := Some 30\<rparr>) \<noteq> ACTIVE"
proof -
  have s1: "status (sample_conversation COMPLETED) \<noteq> ACTIVE" by code_simp
  have s2: "status (sample_conversation ACTIVE) = ACTIVE" by code_simp
  have b: "\<not> is_blank ''hello again''" by code_simp
  have b': "is_blank ''   ''" by code_simp
  note T1 = inactive_conversation_rejects
    [of "sample_conversation COMPLETED" "sample_message USER ''late'' 25" "''hello again''"
        None 30 "sample_conversation COMPLETED"]
  note T1' = inactive_conversation_rejects
    [of "sample_conversation COMPLETED" "sample_message USER ''late'' 25" "''   ''"
        None 30 "sample_conversation COMPLETED"]
  note T2 = inactive_conversation_rejects
    [of "sample_conversation ACTIVE" "sample_message USER ''late'' 25" "''hello again''"
        None 30 "(sample_conversation ACTIVE)\<lparr>status := COMPLETED, ended_at := Some 30\<rparr>"]
  note R = mp [OF conjunct1 [OF T1] s1]
  note R' = mp [OF conjunct1 [OF T1'] s1]
  have 1: "add_user_message (sample_conversation COMPLETED) ''hello again'' None 30
     = Inl (ValueError ''Cannot add message to inactive conversation'')"
    using R [THEN conjunct2, THEN conjunct1] by (simp only: b if_False)
  have 2: "add_user_message (sample_conversation COMPLETED) ''   '' None 30
     = Inl (ValueError ''Message content cannot be empty'')"
    using R' [THEN conjunct2, THEN conjunct1] by (simp only: b' if_True)
  have 3: "complete_conversation (sample_conversation COMPLETED) 30
     = Inl (ValueError ''Conversation is already inactive'')"
    by (rule R [THEN conjunct2, THEN conjunct2, THEN conjunct2, THEN conjunct2, THEN conjunct1])
  have 4: "complete_conversation (sample_conversation ACTIVE) 30
     = Inr ((sample_conversation ACTIVE)\<lparr>status := COMPLETED, ended_at := Some 30\<rparr>)"
    by (rule mp [OF conjunct1 [OF conjunct2 [OF T2]] s2, THEN conjunct1])
  note D = mp [OF conjunct2 [OF conjunct2 [OF T2]] disjI1 [OF 4]]
  have 5: "ended_at ((sample_conversation ACTIVE)\<lparr>status := COMPLETED, ended_at := Some 30\<rparr>)
      = Some 30"
    by (rule D [THEN conjunct2, THEN conjunct2, THEN conjunct1])
  have 6: "status ((sample_conversation ACTIVE)\<lparr>status := COMPLETED, ended_at := Some 30\<rparr>)
      \<noteq> ACTIVE"
    by (rule D [THEN conjunct2, THEN conjunct1])
  show ?thesis
    by (intro conjI) (rule 1, rule 2, rule 3, rule 4, rule 5, rule 6)
qed

section \<open>Context window\<close>

lemma py_slice_from_neg:
  "0 < n \<Longrightarrow> py_slice_from xs (- n) = drop (length xs - nat n) xs"
  by (simp add: py_slice_from_def)

lemma last_n_eq: "get_last_n_messages c n = drop (length (messages c) - nat n) (messages c)"
  by (simp add: get_last_n_messages_def py_slice_from_neg)

text \<open>
  C5. For every conversation and every \<open>n\<close>, the context window is the last \<open>n\<close>
  messages with the system messages filtered out: it holds no system message, at most
  \<open>n\<close> messages, and its messages are in the order of the conversation (it is a
  subsequence of the message list).
\<close>

theorem context_window_spec:
  "get_context_window c n
     = filter (\<lambda>m. role m \<noteq> SYSTEM) (drop (length (messages c) - nat n) (messages c)) \<and>
   (\<forall>m \<in> set (get_context_window c n). role m \<noteq> SYSTEM) \<and>
   length (get_context_window c n) \<le> nat n \<and>
   subseq (get_context_window c n) (messages c)"
proof (intro conjI)
  show e: "get_context_window c n
     = filter (\<lambda>m. role m \<noteq> SYSTEM) (drop (length (messages c) - nat n) (messages c))"
    by (simp add: get_context_window_def last_n_eq is_system_message_def)
  show "\<forall>m \<in> set (get_context_window c n). role m \<noteq> SYSTEM"
    by (simp add: e)
  have "length (get_context_window c n) \<le> length (drop (length (messages c) - nat n) (messages c))"
    unfolding e by (rule length_filter_le)
  also have "\<dots> \<le> nat n" by simp
  finally show "length (get_context_window c n) \<le> nat n" .
  have "subseq (get_context_window c n) (drop (length (messages c) - nat n) (messages c))"
    unfolding e by simp
  also have "subseq (drop (length (messages c) - nat n) (messages c)) (messages c)"
    by (metis append_take_drop_id list_emb_append2 subseq_order.order_refl)
  finally show "subseq (get_context_window c n) (messages c)" .
qed

theorem context_window_spec_witness:
  "get_context_window (sample_conversation ACTIVE) 3
     = [sample_message ASSISTANT ''hi there'' 12, sample_message USER ''headphones?'' 13] \<and>
   length (get_context_window (sample_conversation ACTIVE) 3) \<le> 3 \<and>
   subseq (get_context_window (sample_conversation ACTIVE) 3)
     (messages (sample_conversation ACTIVE))"
proof -
  have g: "get_context_window (sample_conversation ACTIVE) 3
     = [sample_message ASSISTANT ''hi there'' 12, sample_message USER ''headphones?'' 13]"
    by code_simp
  note T = context_window_spec [of "sample_conversation ACTIVE" 3]
  have b: "length (get_context_window (sample_conversation ACTIVE) 3) \<le> nat 3"
    by (rule T [THEN conjunct2, THEN conjunct2, THEN conjunct1])
  from b have b': "length (get_context_window (sample_conversation ACTIVE) 3) \<le> 3" by simp
  have c: "subseq (get_context_window (sample_conversation ACTIVE) 3)
     (messages (sample_conversation ACTIVE))"
    by (rule T [THEN conjunct2, THEN conjunct2, THEN conjunct2])
  show ?thesis
    by (intro conjI) (rule g, rule b', rule c)
qed

section \<open>Retry policy\<close>

lemma retry_loop_bounds:
  "(case retry_loop api max_retries attempt of (r, sleeps, calls) \<Rightarrow>
      calls \<le> nat (max_retries + 1 - int attempt) \<and>
      (int attempt \<le> max_retries \<longrightarrow> 1 \<le> calls) \<and>
      length sleeps = calls - 1 \<and>
      (\<forall>i < length sleeps. \<exists>e. api (attempt + i) = Inl (LLMServiceError e)
                                \<and> sleeps ! i = backoff_wait e (attempt + i)))"
proof (induction api max_retries attempt rule: retry_loop.induct)
  case (1 api max_retries attempt)
  show ?case
  proof (cases "max_retries < int attempt")
    case True
    then show ?thesis by (simp add: retry_loop.simps [of api max_retries attempt])
  next
    case False
    note nf = False
    show ?thesis
    proof (cases "api attempt")
      case (Inr reply)
      then show ?thesis using nf by (simp add: retry_loop.simps [of api max_retries attempt])
    next
      case (Inl e)
      show ?thesis
      proof (cases e)
        case (ValueError m)
        then show ?thesis using nf Inl by (simp add: retry_loop.simps [of api max_retries attempt])
      next
        case (ConversationServiceError m)
        then show ?thesis using nf Inl by (simp add: retry_loop.simps [of api max_retries attempt])
      next
        case (LLMServiceError last_error)
        show ?thesis
        proof (cases "int attempt < max_retries")
          case False
          then show ?thesis using nf Inl LLMServiceError
            by (simp add: retry_loop.simps [of api max_retries attempt])
        next
          case True
          obtain r sleeps calls where rec: "retry_loop api max_retries (attempt + 1) = (r, sleeps, calls)"
            by (cases "retry_loop api max_retries (attempt + 1)") auto
          have ih: "calls \<le> nat (max_retries + 1 - int (attempt + 1)) \<and>
              (int (attempt + 1) \<le> max_retries \<longrightarrow> 1 \<le> calls) \<and>
              length sleeps = calls - 1 \<and>
              (\<forall>i < length sleeps. \<exists>e. api (attempt + 1 + i) = Inl (LLMServiceError e)
                                \<and> sleeps ! i = backoff_wait e (attempt + 1 + i))"
          proof (cases "is_rate_limit last_error")
            case True
            from "1.IH"(1) [OF nf Inl LLMServiceError _ refl] True \<open>int attempt < max_retries\<close> rec
            show ?thesis by simp
          next
            case False
            from "1.IH"(2) [OF nf Inl LLMServiceError _ _ refl] False \<open>int attempt < max_retries\<close> rec
            show ?thesis by simp
          qed
          have unfold: "retry_loop api max_retries attempt
              = (r, backoff_wait last_error attempt # sleeps, calls + 1)"
            using nf Inl LLMServiceError True rec
            by (simp add: retry_loop.simps [of api max_retries attempt] backoff_wait_def)
          have c: "calls + 1 \<le> nat (max_retries + 1 - int attempt)"
            using ih True by linarith
          have l: "length (backoff_wait last_error attempt # sleeps) = calls + 1 - 1"
            using ih True by simp
          have s: "\<exists>e. api (attempt + i) = Inl (LLMServiceError e)
                    \<and> (backoff_wait last_error attempt # sleeps) ! i = backoff_wait e (attempt + i)"
            if "i < length (backoff_wait last_error attempt # sleeps)" for i
          proof (cases i)
            case 0
            then show ?thesis using Inl LLMServiceError by simp
          next
            case (Suc j)
            then have "j < length sleeps" using that by simp
            then show ?thesis using ih Suc by simp
          qed
          show ?thesis unfolding unfold using c l s by simp
        qed
      qed
    qed
  qed
qed


lemma retry_loop_success:
  "api a = Inr reply \<Longrightarrow> int a \<le> max_retries
     \<Longrightarrow> retry_loop api max_retries a = (Inr reply, [], 1)"
  by (subst retry_loop.simps) simp

lemma retry_loop_last_failure:
  "api a = Inl (LLMServiceError e) \<Longrightarrow> int a = max_retries
     \<Longrightarrow> retry_loop api max_retries a = (Inl (LLMServiceError e), [], 1)"
  by (subst retry_loop.simps) simp

lemma retry_loop_failure_step:
  "api a = Inl (LLMServiceError e) \<Longrightarrow> int a < max_retries
     \<Longrightarrow> retry_loop api max_retries a
         = (case retry_loop api max_retries (Suc a) of
              (r, sleeps, calls) \<Rightarrow> (r, backoff_wait e a # sleeps, Suc calls))"
  by (subst retry_loop.simps) (simp add: backoff_wait_def split: prod.splits)

lemma retry_two_failures_then_success:
  assumes "api 1 = Inl (LLMServiceError e1)" "api 2 = Inl (LLMServiceError e2)" "api 3 = Inr reply"
  shows "call_openai_api_with_retry api 3 = (Inr reply, [backoff_wait e1 1, backoff_wait e2 2], 3)"
proof -
  have n: "Suc (Suc 0) = 2" "Suc 2 = 3" by simp_all
  have r3: "retry_loop api 3 3 = (Inr reply, [], 1)"
    using retry_loop_success [where api = api and a = 3 and max_retries = 3] assms(3) by simp
  have r2: "retry_loop api 3 2 = (Inr reply, [backoff_wait e2 2], 2)"
    using retry_loop_failure_step [where api = api and a = 2 and max_retries = 3] assms(2) by (simp add: n r3)
  have r1: "retry_loop api 3 1 = (Inr reply, [backoff_wait e1 1, backoff_wait e2 2], 3)"
    using retry_loop_failure_step [where api = api and a = 1 and max_retries = 3] assms(1) by (simp add: n r2)
  then show ?thesis by (simp only: call_openai_api_with_retry_def)
qed

lemma retry_three_failures:
  assumes "api 1 = Inl (LLMServiceError e1)" "api 2 = Inl (LLMServiceError e2)"
    "api 3 = Inl (LLMServiceError e3)"
  shows "call_openai_api_with_retry api 3
           = (Inl (LLMServiceError e3), [backoff_wait e1 1, backoff_wait e2 2], 3)"
proof -
  have n: "Suc (Suc 0) = 2" "Suc 2 = 3" by simp_all
  have r3: "retry_loop api 3 3 = (Inl (LLMServiceError e3), [], 1)"
    using retry_loop_last_failure [where api = api and a = 3 and max_retries = 3] assms(3) by simp
  have r2: "retry_loop api 3 2 = (Inl (LLMServiceError e3), [backoff_wait e2 2], 2)"
    using retry_loop_failure_step [where api = api and a = 2 and max_retries = 3] assms(2) by (simp add: n r3)
  have r1: "retry_loop api 3 1 = (Inl (LLMServiceError e3), [backoff_wait e1 1, backoff_wait e2 2], 3)"
    using retry_loop_failure_step [where api = api and a = 1 and max_retries = 3] assms(1) by (simp add: n r2)
  then show ?thesis by (simp only: call_openai_api_with_retry_def)
qed

text \<open>
  C6. The retry wrapper calls the provider at most \<open>max_retries\<close> times; it sleeps once
  between two attempts, after a failed attempt \<open>k\<close> for \<open>2 ^ k\<close> seconds, plus \<open>k / 2\<close>
  after a rate-limit error. With \<open>max_retries = 3\<close>, two failures followed by a success
  return the reply after three calls and the two waits of the formula, 2 + 4 seconds in
  all when neither failure is a rate-limit error; three failures in a row raise the
  \<open>LLMServiceError\<close> of the third attempt.
\<close>

theorem retry_policy:
  "(case call_openai_api_with_retry api max_retries of (r, sleeps, calls) \<Rightarrow>
      calls \<le> nat max_retries \<and>
      length sleeps = calls - 1 \<and>
      (\<forall>i < length sleeps. \<exists>e. api (i + 1) = Inl (LLMServiceError e)
                                \<and> sleeps ! i = backoff_wait e (i + 1))) \<and>
   backoff_wait e k = (if is_rate_limit e then 2 ^ k + of_nat k / 2 else 2 ^ k) \<and>
   (api 1 = Inl (LLMServiceError e1) \<and> api 2 = Inl (LLMServiceError e2) \<and> api 3 = Inr reply
      \<longrightarrow> call_openai_api_with_retry api 3
            = (Inr reply, [backoff_wait e1 1, backoff_wait e2 2], 3) \<and>
          (\<not> is_rate_limit e1 \<and> \<not> is_rate_limit e2
             \<longrightarrow> sum_list (fst (snd (call_openai_api_with_retry api 3))) = 2 + 4)) \<and>
   (api 1 = Inl (LLMServiceError e1) \<and> api 2 = Inl (LLMServiceError e2)
      \<and> api 3 = Inl (LLMServiceError e3)
      \<longrightarrow> call_openai_api_with_retry api 3
            = (Inl (LLMServiceError e3), [backoff_wait e1 1, backoff_wait e2 2], 3))"
proof (intro conjI impI)
  show "case call_openai_api_with_retry api max_retries of (r, sleeps, calls) \<Rightarrow>
      calls \<le> nat max_retries \<and>
      length sleeps = calls - 1 \<and>
      (\<forall>i < length sleeps. \<exists>e. api (i + 1) = Inl (LLMServiceError e)
                                \<and> sleeps ! i = backoff_wait e (i + 1))"
    using retry_loop_bounds [where api = api and max_retries = max_retries and attempt = 1]
    by (auto simp: call_openai_api_with_retry_def split: prod.splits)
  show "backoff_wait e k = (if is_rate_limit e then 2 ^ k + of_nat k / 2 else 2 ^ k)"
    by (simp add: backoff_wait_def)
next
  assume a: "api 1 = Inl (LLMServiceError e1) \<and> api 2 = Inl (LLMServiceError e2) \<and> api 3 = Inr reply"
  then show r: "call_openai_api_with_retry api 3
            = (Inr reply, [backoff_wait e1 1, backoff_wait e2 2], 3)"
    using retry_two_failures_then_success by blast
  assume "\<not> is_rate_limit e1 \<and> \<not> is_rate_limit e2"
  then show "sum_list (fst (snd (call_openai_api_with_retry api 3))) = 2 + 4"
    by (simp add: r backoff_wait_def)
next
  assume "api 1 = Inl (LLMServiceError e1) \<and> api 2 = Inl (LLMServiceError e2)
      \<and> api 3 = Inl (LLMServiceError e3)"
  then show "call_openai_api_with_retry api 3
            = (Inl (LLMServiceError e3), [backoff_wait e1 1, backoff_wait e2 2], 3)"
    using retry_three_failures by blast
qed

theorem retry_policy_witness:
  "call_openai_api_with_retry (sample_api 2) 3 = (Inr ''Happy to help'', [2, 4], 3) \<and>
   sum_list (fst (snd (call_openai_api_with_retry (sample_api 2) 3))) = 2 + 4 \<and>
   fst (call_openai_api_with_retry (sample_api 3) 3)
     = Inl (LLMServiceError ''API error: attempt 3'')"
proof -
  have a2: "sample_api 2 1 = Inl (LLMServiceError ''API error: attempt 1'') \<and>
     sample_api 2 2 = Inl (LLMServiceError ''API error: attempt 2'') \<and>
     sample_api 2 3 = Inr ''Happy to help''"
    by code_simp
  have a3: "sample_api 3 1 = Inl (LLMServiceError ''API error: attempt 1'') \<and>
     sample_api 3 2 = Inl (LLMServiceError ''API error: attempt 2'') \<and>
     sample_api 3 3 = Inl (LLMServiceError ''API error: attempt 3'')"
    by code_simp
  have n: "\<not> is_rate_limit ''API error: attempt 1'' \<and> \<not> is_rate_limit ''API error: attempt 2''"
    by code_simp
  have b: "backoff_wait ''API error: attempt 1'' 1 = 2" "backoff_wait ''API error: attempt 2'' 2 = 4"
    by code_simp+
  note T2 = retry_policy [where api = "sample_api 2" and max_retries = 3
      and ?e1.0 = "''API error: attempt 1''" and ?e2.0 = "''API error: attempt 2''"
      and reply = "''Happy to help''"]
  note T3 = retry_policy [where api = "sample_api 3" and max_retries = 3
      and ?e1.0 = "''API error: attempt 1''" and ?e2.0 = "''API error: attempt 2''"
      and ?e3.0 = "''API error: attempt 3''"]
  note S = mp [OF conjunct1 [OF conjunct2 [OF conjunct2 [OF T2]]] a2]
  note F = mp [OF conjunct2 [OF conjunct2 [OF conjunct2 [OF T3]]] a3]
  have 1: "call_openai_api_with_retry (sample_api 2) 3 = (Inr ''Happy to help'', [2, 4], 3)"
    using S [THEN conjunct1] by (simp only: b)
  have 2: "sum_list (fst (snd (call_openai_api_with_retry (sample_api 2) 3))) = 2 + 4"
    by (rule mp [OF conjunct2 [OF S] n])
  have 3: "fst (call_openai_api_with_retry (sample_api 3) 3)
     = Inl (LLMServiceError ''API error: attempt 3'')"
    by (simp only: F fst_conv)
  show ?thesis by (intro conjI) (rule 1, rule 2, rule 3)
qed

section \<open>Failure of the LLM call during a user turn\<close>

lemma add_user_message_active:
  "status c = ACTIVE \<Longrightarrow> \<not> is_blank user_message \<Longrightarrow>
   add_user_message c user_message None now
     = Inr (\<lparr>role = USER, content = user_message, timestamp = now, msg_metadata = []\<rparr>,
            c\<lparr>messages := messages c
                 @ [\<lparr>role = USER, content = user_message, timestamp = now, msg_metadata = []\<rparr>]\<rparr>)"
  by (simp add: add_user_message_def create_user_message_def new_MessageSchema_def
      metadata_or_empty_def add_created_def add_message_def is_active_def)

lemma process_generate_fails:
  assumes "status c = ACTIVE" "\<not> is_blank user_message"
    and "generate (c\<lparr>messages := messages c
                 @ [\<lparr>role = USER, content = user_message, timestamp = now1, msg_metadata = []\<rparr>]\<rparr>) u
           (get_relevant_products all_products limit u (analyze user_message))
           (determine_conversation_stage (analyze user_message)) = Inl e"
  shows "process_user_message all_products limit analyze generate c u user_message now1 now2
     = (Inl (wrap_process_error e),
        c\<lparr>messages := messages c
             @ [\<lparr>role = USER, content = user_message, timestamp = now1, msg_metadata = []\<rparr>]\<rparr>)"
  using assms(3)
  by (simp add: process_user_message_def add_user_message_active [OF assms(1,2)] Let_def)

lemma generate_response_fails:
  "fst (call_openai_api_with_retry api max_retries) = Inl e \<Longrightarrow>
   generate_response api max_retries
     = Inl (LLMServiceError (''Unexpected error generating response: '' @ str_of_error e))"
  by (simp add: generate_response_def)

text \<open>
  C7. When the conversation is active and the user's text is not blank, the LLM call is
  reached with the user message already appended. If it then fails with an
  \<open>LLMServiceError\<close>, \<open>process_user_message\<close> raises a \<open>ConversationServiceError\<close> that
  quotes the cause, and leaves the conversation with exactly that one message more: no
  assistant message is appended and the status is unchanged. With \<open>generate_response\<close>
  as the LLM call, a failure of the retry wrapper is such a failure.
\<close>

theorem llm_failure_keeps_conversation:
  "(status c = ACTIVE \<and> \<not> is_blank user_message \<and>
    c1 = c\<lparr>messages := messages c
              @ [\<lparr>role = USER, content = user_message, timestamp = now1, msg_metadata = []\<rparr>]\<rparr> \<and>
    generate c1 u (get_relevant_products all_products limit u (analyze user_message))
             (determine_conversation_stage (analyze user_message)) = Inl (LLMServiceError cause)
    \<longrightarrow> process_user_message all_products limit analyze generate c u user_message now1 now2
          = (Inl (ConversationServiceError (''LLM service error: '' @ cause)), c1) \<and>
        messages c1
          = messages c @ [\<lparr>role = USER, content = user_message, timestamp = now1, msg_metadata = []\<rparr>] \<and>
        filter (\<lambda>m. role m = ASSISTANT) (messages c1)
          = filter (\<lambda>m. role m = ASSISTANT) (messages c) \<and>
        status c1 = status c) \<and>
   (status c = ACTIVE \<and> \<not> is_blank user_message \<and>
    fst (call_openai_api_with_retry api max_retries) = Inl e
    \<longrightarrow> process_user_message all_products limit analyze
            (\<lambda>conversation user products stage. generate_response api max_retries)
            c u user_message now1 now2
          = (Inl (ConversationServiceError
                    (''LLM service error: Unexpected error generating response: ''
                     @ str_of_error e)),
             c\<lparr>messages := messages c
                  @ [\<lparr>role = USER, content = user_message, timestamp = now1, msg_metadata = []\<rparr>]\<rparr>))"
proof (intro conjI impI)
  assume a: "status c = ACTIVE \<and> \<not> is_blank user_message \<and>
    c1 = c\<lparr>messages := messages c
              @ [\<lparr>role = USER, content = user_message, timestamp = now1, msg_metadata = []\<rparr>]\<rparr> \<and>
    generate c1 u (get_relevant_products all_products limit u (analyze user_message))
             (determine_conversation_stage (analyze user_message)) = Inl (LLMServiceError cause)"
  note s = a [THEN conjunct1]
    and nb = a [THEN conjunct2, THEN conjunct1]
    and c1 = a [THEN conjunct2, THEN conjunct2, THEN conjunct1]
    and g = a [THEN conjunct2, THEN conjunct2, THEN conjunct2]
  have "process_user_message all_products limit analyze generate c u user_message now1 now2
     = (Inl (wrap_process_error (LLMServiceError cause)), c1)"
    unfolding c1
    by (rule process_generate_fails [where generate = generate and analyze = analyze
          and all_products = all_products and limit = limit and u = u, OF s nb g [unfolded c1]])
  then show "process_user_message all_products limit analyze generate c u user_message now1 now2
          = (Inl (ConversationServiceError (''LLM service error: '' @ cause)), c1)"
    by (simp add: wrap_process_error_def)
  show "messages c1
          = messages c @ [\<lparr>role = USER, content = user_message, timestamp = now1, msg_metadata = []\<rparr>]"
    by (simp add: c1)
  show "filter (\<lambda>m. role m = ASSISTANT) (messages c1)
          = filter (\<lambda>m. role m = ASSISTANT) (messages c)"
    by (simp add: c1)
  show "status c1 = status c" by (simp add: c1)
next
  assume b: "status c = ACTIVE \<and> \<not> is_blank user_message \<and>
    fst (call_openai_api_with_retry api max_retries) = Inl e"
  then have g: "generate_response api max_retries
     = Inl (LLMServiceError (''Unexpected error generating response: '' @ str_of_error e))"
    using generate_response_fails by blast
  have "process_user_message all_products limit analyze
            (\<lambda>conversation user products stage. generate_response api max_retries)
            c u user_message now1 now2
     = (Inl (wrap_process_error
               (LLMServiceError (''Unexpected error generating response: '' @ str_of_error e))),
        c\<lparr>messages := messages c
             @ [\<lparr>role = USER, content = user_message, timestamp = now1, msg_metadata = []\<rparr>]\<rparr>)"
    using b by (intro process_generate_fails) (simp_all add: g)
  then show "process_user_message all_products limit analyze
            (\<lambda>conversation user products stage. generate_response api max_retries)
            c u user_message now1 now2
          = (Inl (ConversationServiceError
                    (''LLM service error: Unexpected error generating response: ''
                     @ str_of_error e)),
             c\<lparr>messages := messages c
                  @ [\<lparr>role = USER, content = user_message, timestamp = now1, msg_metadata = []\<rparr>]\<rparr>)"
    by (simp add: wrap_process_error_def)
qed

theorem llm_failure_keeps_conversation_witness:
  "process_user_message [product_200, product_350] 50 sample_analyze
       (\<lambda>conversation user products stage. generate_response (sample_api 3) 3)
       (sample_conversation ACTIVE) sample_user ''any speakers?'' 14 15
     = (Inl (ConversationServiceError
               (''LLM service error: Unexpected error generating response: ''
                @ ''API error: attempt 3'')),
        (sample_conversation ACTIVE)
          \<lparr>messages := messages (sample_conversation ACTIVE)
             @ [\<lparr>role = USER, content = ''any speakers?'', timestamp = 14, msg_metadata = []\<rparr>]\<rparr>) \<and>
   process_user_message [product_200, product_350] 50 sample_analyze
       (\<lambda>conversation user products stage. Inl (LLMServiceError ''API request timed out''))
       (sample_conversation ACTIVE) sample_user ''any speakers?'' 14 15
     = (Inl (ConversationServiceError (''LLM service error: '' @ ''API request timed out'')),
        (sample_conversation ACTIVE)
          \<lparr>messages := messages (sample_conversation ACTIVE)
             @ [\<lparr>role = USER, content = ''any speakers?'', timestamp = 14, msg_metadata = []\<rparr>]\<rparr>)"
proof -
  have a: "status (sample_conversation ACTIVE) = ACTIVE" by code_simp
  have b: "\<not> is_blank ''any speakers?''" by code_simp
  have f: "fst (call_openai_api_with_retry (sample_api 3) 3)
       = Inl (LLMServiceError ''API error: attempt 3'')"
    by code_simp
  have s: "str_of_error (LLMServiceError ''API error: attempt 3'') = ''API error: attempt 3''"
    by (rule str_of_error.simps)
  note T = llm_failure_keeps_conversation [where c = "sample_conversation ACTIVE"
      and user_message = "''any speakers?''" and api = "sample_api 3" and max_retries = 3
      and e = "LLMServiceError ''API error: attempt 3''"
      and all_products = "[product_200, product_350]" and limit = 50
      and analyze = sample_analyze and u = sample_user and ?now1.0 = 14 and ?now2.0 = 15
      and generate = "\<lambda>conversation user products stage. Inl (LLMServiceError ''API request timed out'')"
      and cause = "''API request timed out''"
      and ?c1.0 = "(sample_conversation ACTIVE)
          \<lparr>messages := messages (sample_conversation ACTIVE)
             @ [\<lparr>role = USER, content = ''any speakers?'', timestamp = 14, msg_metadata = []\<rparr>]\<rparr>"]
  have 1: "process_user_message [product_200, product_350] 50 sample_analyze
       (\<lambda>conversation user products stage. generate_response (sample_api 3) 3)
       (sample_conversation ACTIVE) sample_user ''any speakers?'' 14 15
     = (Inl (ConversationServiceError
               (''LLM service error: Unexpected error generating response: ''
                @ ''API error: attempt 3'')),
        (sample_conversation ACTIVE)
          \<lparr>messages := messages (sample_conversation ACTIVE)
             @ [\<lparr>role = USER, content = ''any speakers?'', timestamp = 14, msg_metadata = []\<rparr>]\<rparr>)"
    using mp [OF conjunct2 [OF T] conjI [OF a conjI [OF b f]]] by (simp only: s)
  have 2: "process_user_message [product_200, product_350] 50 sample_analyze
       (\<lambda>conversation user products stage. Inl (LLMServiceError ''API request timed out''))
       (sample_conversation ACTIVE) sample_user ''any speakers?'' 14 15
     = (Inl (ConversationServiceError (''LLM service error: '' @ ''API request timed out'')),
        (sample_conversation ACTIVE)
          \<lparr>messages := messages (sample_conversation ACTIVE)
             @ [\<lparr>role = USER, content = ''any speakers?'', timestamp = 14, msg_metadata = []\<rparr>]\<rparr>)"
    by (rule mp [OF conjunct1 [OF T] conjI [OF a conjI [OF b conjI [OF refl refl]]], THEN conjunct1])
  show ?thesis
    by (intro conjI) (rule 1, rule 2)
qed

section \<open>Stock records\<close>

text \<open>
  C8. Every stock record that the constructor returns has a quantity of at least 0 (and a
  reorder level of at least 0) and is normalised: quantity 0 gives the status
  out_of_stock, and a quantity in 1..reorder_level given with the status in_stock gives
  low_stock. A negative quantity or a negative reorder level makes the constructor fail.
\<close>

theorem stock_schema_invariant:
  "(new_ProductStockSchema st q r = Inr s \<longrightarrow>
      0 \<le> quantity s \<and> 0 \<le> reorder_level s \<and> quantity s = q \<and> reorder_level s = r \<and>
      (quantity s = 0 \<longrightarrow> stock_status s = OUT_OF_STOCK) \<and>
      (0 < quantity s \<and> quantity s \<le> reorder_level s \<and> st = IN_STOCK
         \<longrightarrow> stock_status s = LOW_STOCK)) \<and>
   (q < 0 \<or> r < 0 \<longrightarrow> (\<exists>m. new_ProductStockSchema st q r = Inl (ValueError m))) \<and>
   (0 \<le> q \<and> 0 \<le> r \<longrightarrow> (\<exists>s'. new_ProductStockSchema st q r = Inr s'))"
  by (auto simp: new_ProductStockSchema_def split: if_splits)

theorem stock_schema_invariant_witness:
  "new_ProductStockSchema IN_STOCK 3 5
     = Inr \<lparr>stock_status = LOW_STOCK, quantity = 3, reorder_level = 5\<rparr> \<and>
   new_ProductStockSchema PRE_ORDER 0 5
     = Inr \<lparr>stock_status = OUT_OF_STOCK, quantity = 0, reorder_level = 5\<rparr> \<and>
   (\<exists>m. new_ProductStockSchema IN_STOCK (- 1) 5 = Inl (ValueError m)) \<and>
   (\<exists>m. new_ProductStockSchema IN_STOCK 4 (- 2) = Inl (ValueError m))"
  using stock_schema_invariant [of IN_STOCK 3 5 "\<lparr>stock_status = LOW_STOCK, quantity = 3, reorder_level = 5\<rparr>"]
    stock_schema_invariant [of PRE_ORDER 0 5 "\<lparr>stock_status = OUT_OF_STOCK, quantity = 0, reorder_level = 5\<rparr>"]
    stock_schema_invariant [of IN_STOCK "- 1" 5]
    stock_schema_invariant [of IN_STOCK 4 "- 2"]
  by (simp add: new_ProductStockSchema_def)

end
